theory Spec2Isabelle
  imports Main
begin

section \<open>Paths\<close>

text \<open>
  The handlers call \<^verbatim>\<open>filepath.Base\<close> and \<^verbatim>\<open>filepath.Join\<close> of the Go standard
  library (Unix flavour: the separator is the slash and there is no volume name).
  \<open>Base\<close> strips trailing slashes and returns what follows the last remaining slash;
  the empty path gives a dot and a path of slashes alone gives one slash.
\<close>

definition isPathSeparator :: "char \<Rightarrow> bool" where
  "isPathSeparator c = (c = CHR ''/'')"

definition Base :: "string \<Rightarrow> string" where
  "Base path =
     (if path = [] then ''.''
      else
        let stripped = rev (dropWhile isPathSeparator (rev path));
            element = rev (takeWhile (\<lambda>c. \<not> isPathSeparator c) (rev stripped))
        in if element = [] then ''/'' else element)"

text \<open>
  \<open>Clean\<close> works on the elements between slashes: empty elements and dots are dropped,
  a double dot removes the element before it (above the root it is dropped, and in a
  relative path with nothing left to remove it is kept), and the empty result is a dot.
  \<open>elements\<close> splits at every slash; \<open>cleanElements\<close> keeps the cleaned elements in
  reverse order.
\<close>

fun elements :: "string \<Rightarrow> string list" where
  "elements [] = [[]]"
| "elements (c # cs) =
     (if isPathSeparator c then [] # elements cs
      else (case elements cs of [] \<Rightarrow> [[c]] | e # es \<Rightarrow> (c # e) # es))"

fun cleanElements :: "bool \<Rightarrow> string list \<Rightarrow> string list \<Rightarrow> string list" where
  "cleanElements rooted out [] = out"
| "cleanElements rooted out (e # es) =
     (if e = [] \<or> e = ''.'' then cleanElements rooted out es
      else if e = ''..'' then
        (case out of
           [] \<Rightarrow> cleanElements rooted (if rooted then [] else [''..'']) es
         | final # below \<Rightarrow>
             if final = ''..'' then cleanElements rooted (''..'' # out) es
             else cleanElements rooted below es)
      else cleanElements rooted (e # out) es)"

fun joinElements :: "string list \<Rightarrow> string" where
  "joinElements [] = []"
| "joinElements [e] = e"
| "joinElements (e # es) = e @ ''/'' @ joinElements es"

definition Clean :: "string \<Rightarrow> string" where
  "Clean path =
     (if path = [] then ''.''
      else
        let rooted = isPathSeparator (hd path);
            out = joinElements (rev (cleanElements rooted [] (elements path)));
            cleaned = (if rooted then ''/'' @ out else out)
        in if cleaned = [] then ''.'' else cleaned)"

text \<open>\<open>Join\<close> of two elements: empty leading elements are skipped, the rest is joined
  with a slash and cleaned; with nothing but empty elements the result is empty.\<close>

definition Join :: "string \<Rightarrow> string \<Rightarrow> string" where
  "Join a b =
     (if a \<noteq> [] then Clean (a @ ''/'' @ b)
      else if b \<noteq> [] then Clean b
      else [])"

section \<open>Data model\<close>

text \<open>
  The object descriptor of the semantic library, with the fields the handlers read and
  write. \<open>AtType\<close> is the Go field \<^verbatim>\<open>Type\<close> (JSON \<^verbatim>\<open>@type\<close>); sizes are Go's
  \<^verbatim>\<open>int64\<close>, and no handler does arithmetic on them.
\<close>

record S3Object =
  AtType :: string
  Identifier :: string
  Name :: string
  ContentUrl :: string
  ContentSize :: int
  EncodingFormat :: string
  UploadDate :: string

text \<open>The target descriptor, in the shape the README documents: bucket identifier,
  endpoint URL and the additional properties that carry region and keys. The handlers
  never look inside; they hand it to the library's credential extraction.\<close>

record S3Bucket =
  BucketIdentifier :: string
  Url :: string
  AdditionalProperty :: "(string \<times> string) list"

datatype PropertyValue = PropertyValue string string string

datatype S3Result = ObjectResult S3Object | ListResult "S3Object list"

text \<open>
  The typed actions of the typed handler file (\<^verbatim>\<open>S3UploadAction\<close>,
  \<^verbatim>\<open>S3DownloadAction\<close>, \<^verbatim>\<open>S3DeleteAction\<close>, \<^verbatim>\<open>S3ListAction\<close>) share one
  envelope; the record carries every field a handler of that file reads or writes, and
  the constructor of \<open>TypedAction\<close> is the Go type that \<^verbatim>\<open>ParseS3Action\<close> returned.
  \<open>OtherAction\<close> stands for any other dynamic type, named as \<^verbatim>\<open>%T\<close> prints it.
\<close>

record S3Action =
  StartTime :: string
  EndTime :: string
  ActionStatus :: string
  Target :: "S3Bucket option"
  Object :: "S3Object option"
  TargetUrl :: string
  Query :: string
  Result :: "S3Result option"
  Error :: "PropertyValue option"

datatype TypedAction =
    S3UploadAction S3Action
  | S3DownloadAction S3Action
  | S3DeleteAction S3Action
  | S3ListAction S3Action
  | OtherAction string

text \<open>
  The generic action of the current handler file: the discriminator and the property bag.
  A property holds any JSON value; the handlers store objects and object lists in it and
  read the query with a string type assertion.
\<close>

datatype PropertyData =
    StringValue string
  | ObjectValue S3Object
  | ObjectsValue "S3Object list"
  | BucketValue S3Bucket
  | OtherValue

record SemanticAction =
  Type :: string
  Properties :: "string \<rightharpoonup> PropertyData"

text \<open>What a handler hands to the web framework: \<^verbatim>\<open>c.JSON(status, action)\<close>,
  \<^verbatim>\<open>c.JSON(status, map)\<close> of the REST adapter, or an \<^verbatim>\<open>echo.NewHTTPError\<close>.\<close>

datatype 'a Response =
    JSON nat 'a
  | JSONMap nat "(string \<times> string) list"
  | HTTPError nat string

fun statusCode :: "'a Response \<Rightarrow> nat" where
  "statusCode (JSON code _) = code"
| "statusCode (JSONMap code _) = code"
| "statusCode (HTTPError code _) = code"

section \<open>The outside world\<close>

text \<open>
  Every call that leaves the handler file is recorded in a trace, in call order:
  the store calls (upload, get, delete, list), the local file calls and the client
  construction. \<open>Enter\<close> marks the entry of a function of the handler file, so that a
  theorem can say which handler ran, or that none did.
\<close>

datatype Function =
    SemanticHandler | UploadHandler | DownloadHandler | DeleteHandler | ListHandler

datatype Call =
    Enter Function
  | UploadFile string string string string string string
  | StatFile string
  | LoadConfig string string string
  | GetObjectCall string string
  | CreateFile string
  | CopyBody string
  | DeleteObjectCall string string
  | ListObjectsCall string "string option"

fun isStoreCall :: "Call \<Rightarrow> bool" where
  "isStoreCall (UploadFile _ _ _ _ _ _) = True"
| "isStoreCall (GetObjectCall _ _) = True"
| "isStoreCall (DeleteObjectCall _ _) = True"
| "isStoreCall (ListObjectsCall _ _) = True"
| "isStoreCall _ = False"

fun isHandlerEntry :: "Call \<Rightarrow> bool" where
  "isHandlerEntry (Enter SemanticHandler) = False"
| "isHandlerEntry (Enter _) = True"
| "isHandlerEntry _ = False"

fun isDownloadCall :: "Call \<Rightarrow> bool" where
  "isDownloadCall (Enter DownloadHandler) = True"
| "isDownloadCall (GetObjectCall _ _) = True"
| "isDownloadCall (CreateFile _) = True"
| "isDownloadCall (CopyBody _) = True"
| "isDownloadCall _ = False"

fun isListCall :: "Call \<Rightarrow> bool" where
  "isListCall (ListObjectsCall _ _) = True"
| "isListCall _ = False"

text \<open>One entry of a listing page: key, size and the formatted modification time.\<close>

record ListedObject =
  ObjectKey :: string
  ObjectSize :: int
  LastModified :: string

record S3Client =
  BaseEndpoint :: string
  Region :: string
  AccessKey :: string
  SecretKey :: string

datatype Json = JString string | JObject "(string \<times> Json) list"

text \<open>
  The collaborators are parameters of the model: what the libraries, the store and the
  file system answer is not decided by this repository. An error is its message.
  \<open>Now k\<close> is the formatted time of the \<open>k\<close>-th clock read of a request, counted from 0.
\<close>

record Env =
  Now :: "nat \<Rightarrow> string"
  ExtractS3Credentials ::
    "S3Bucket option \<Rightarrow> string + (string \<times> string \<times> string \<times> string \<times> string)"
  HetznerUploadFile ::
    "string \<Rightarrow> string \<Rightarrow> string \<Rightarrow> string \<Rightarrow> string \<Rightarrow> string \<Rightarrow> string option"
  Stat :: "string \<Rightarrow> string + int"
  LoadDefaultConfig :: "string \<Rightarrow> string \<Rightarrow> string \<Rightarrow> string option"
  GetObject :: "S3Client \<Rightarrow> string \<Rightarrow> string \<Rightarrow> string + string"
  Create :: "string \<Rightarrow> string option"
  Copy :: "string \<Rightarrow> string \<Rightarrow> string + int"
  DeleteObject :: "S3Client \<Rightarrow> string \<Rightarrow> string \<Rightarrow> string option"
  ListObjectsV2 :: "S3Client \<Rightarrow> string \<Rightarrow> string option \<Rightarrow> string + ListedObject list"
  ParseS3Action :: "string \<Rightarrow> string + TypedAction"
  ParseSemanticAction :: "string \<Rightarrow> string + SemanticAction"
  GetS3BucketFromAction :: "SemanticAction \<Rightarrow> string + S3Bucket"
  GetS3ObjectFromAction :: "SemanticAction \<Rightarrow> string + S3Object"
  GetS3TargetUrlFromAction :: "SemanticAction \<Rightarrow> string"
  ReturnActionError ::
    "SemanticAction \<Rightarrow> string \<Rightarrow> string option \<Rightarrow> SemanticAction Response"
  SetSuccessOnAction :: "SemanticAction \<Rightarrow> SemanticAction"
  Marshal :: "Json \<Rightarrow> string + string"

section \<open>Shared helpers of the handler files\<close>

text \<open>\<^verbatim>\<open>createS3Client\<close>: the SDK configuration may fail to load; otherwise the client
  addresses the given endpoint.\<close>

definition createS3Client ::
  "Env \<Rightarrow> string \<Rightarrow> string \<Rightarrow> string \<Rightarrow> string \<Rightarrow> string + S3Client" where
  "createS3Client env endpoint region accessKey secretKey =
     (case LoadDefaultConfig env region accessKey secretKey of
        Some err \<Rightarrow> Inl (''failed to load AWS config: '' @ err)
      | None \<Rightarrow>
          Inr \<lparr>BaseEndpoint = endpoint, Region = region,
               AccessKey = accessKey, SecretKey = secretKey\<rparr>)"

text \<open>The three steps under \<^verbatim>\<open>// Determine S3 key\<close> of the upload handlers, which are
  the same in both files: the target key, then the object identifier, then the base name
  of the local path.\<close>

definition uploadKey :: "string \<Rightarrow> S3Object \<Rightarrow> string \<Rightarrow> string" where
  "uploadKey targetUrl object filePath =
     (let s3Key = targetUrl;
          s3Key = (if s3Key = [] then Identifier object else s3Key);
          s3Key = (if s3Key = [] then Base filePath else s3Key)
      in s3Key)"

text \<open>The steps under \<^verbatim>\<open>// Get S3 key from object\<close> of the download and delete
  handlers; \<open>None\<close> is the case that returns the missing-key error.\<close>

definition objectKey :: "S3Object \<Rightarrow> string option" where
  "objectKey object =
     (let s3Key = Identifier object;
          s3Key = (if s3Key = [] then Name object else s3Key)
      in if s3Key = [] then None else Some s3Key)"

text \<open>The steps under \<^verbatim>\<open>// Determine local download path\<close>.\<close>

definition downloadPathFor :: "S3Object \<Rightarrow> string \<Rightarrow> string" where
  "downloadPathFor object s3Key =
     (let downloadPath = ContentUrl object
      in if downloadPath = [] then Join ''/tmp'' (Base s3Key) else downloadPath)"

text \<open>The loop that builds the result list of a listing, one object per entry.\<close>

definition listedObject :: "string \<Rightarrow> ListedObject \<Rightarrow> S3Object" where
  "listedObject bucketName obj =
     \<lparr>AtType = ''MediaObject'', Identifier = ObjectKey obj, Name = Base (ObjectKey obj),
      ContentUrl = ''s3://'' @ bucketName @ ''/'' @ ObjectKey obj, ContentSize = ObjectSize obj,
      EncodingFormat = [], UploadDate = LastModified obj\<rparr>"

section \<open>The typed handler file\<close>

text \<open>
  The last of the three files in \<^verbatim>\<open>src/unnamed/part_002\<close>: the handlers work on the
  typed actions and set status, result, error and times themselves. The suffix
  \<open>Typed\<close> tells its functions from those of the current file, which have the same
  names in the source.

  \<^verbatim>\<open>returnError\<close>: the four typed actions get the failed status, the error property and
  the end time, and are sent with status 500; anything else becomes an HTTP error 500.
  On every path to it the start time is the only clock read before, so the end time is
  the second read.
\<close>

definition failed :: "Env \<Rightarrow> S3Action \<Rightarrow> string \<Rightarrow> S3Action" where
  "failed env v message =
     v\<lparr>ActionStatus := ''FailedActionStatus'',
       Error := Some (PropertyValue ''PropertyValue'' ''error'' message),
       EndTime := Now env 1\<rparr>"

fun returnError :: "Env \<Rightarrow> TypedAction \<Rightarrow> string \<Rightarrow> TypedAction Response" where
  "returnError env (S3UploadAction v) message = JSON 500 (S3UploadAction (failed env v message))"
| "returnError env (S3DownloadAction v) message = JSON 500 (S3DownloadAction (failed env v message))"
| "returnError env (S3DeleteAction v) message = JSON 500 (S3DeleteAction (failed env v message))"
| "returnError env (S3ListAction v) message = JSON 500 (S3ListAction (failed env v message))"
| "returnError env (OtherAction t) message = HTTPError 500 message"

definition executeUploadActionTyped ::
  "Env \<Rightarrow> S3Action \<Rightarrow> TypedAction Response \<times> Call list" where
  "executeUploadActionTyped env action0 =
     (let action = action0\<lparr>StartTime := Now env 0\<rparr>;
          calls = [Enter UploadHandler]
      in case ExtractS3Credentials env (Target action) of
           Inl err \<Rightarrow>
             (returnError env (S3UploadAction action)
                (''Failed to extract S3 credentials: '' @ err), calls)
         | Inr (url, region, accessKey, secretKey, bucketName) \<Rightarrow>
             (case Object action of
                None \<Rightarrow> (returnError env (S3UploadAction action) ''Object is required'', calls)
              | Some object \<Rightarrow>
                  let filePath = ContentUrl object
                  in if filePath = [] then
                       (returnError env (S3UploadAction action)
                          ''Object contentUrl (file path) is required'', calls)
                     else
                       let s3Key = uploadKey (TargetUrl action) object filePath;
                           calls = calls @
                             [UploadFile url accessKey secretKey bucketName filePath s3Key]
                       in case HetznerUploadFile env url accessKey secretKey bucketName
                                 filePath s3Key of
                            Some err \<Rightarrow>
                              (returnError env (S3UploadAction action)
                                 (''Failed to upload file: '' @ err), calls)
                          | None \<Rightarrow>
                              let calls = calls @ [StatFile filePath]
                              in case Stat env filePath of
                                   Inr fileSize \<Rightarrow>
                                     (JSON 200 (S3UploadAction
                                        (action\<lparr>Result := Some (ObjectResult
                                            \<lparr>AtType = ''MediaObject'', Identifier = s3Key,
                                             Name = Base filePath,
                                             ContentUrl =
                                               ''s3://'' @ bucketName @ ''/'' @ s3Key,
                                             ContentSize = fileSize,
                                             EncodingFormat = EncodingFormat object,
                                             UploadDate = Now env 1\<rparr>),
                                           ActionStatus := ''CompletedActionStatus'',
                                           EndTime := Now env 2\<rparr>)), calls)
                                 | Inl err \<Rightarrow>
                                     (JSON 200 (S3UploadAction
                                        (action\<lparr>ActionStatus := ''CompletedActionStatus'',
                                           EndTime := Now env 1\<rparr>)), calls)))"

definition executeDownloadActionTyped ::
  "Env \<Rightarrow> S3Action \<Rightarrow> TypedAction Response \<times> Call list" where
  "executeDownloadActionTyped env action0 =
     (let action = action0\<lparr>StartTime := Now env 0\<rparr>;
          calls = [Enter DownloadHandler]
      in case ExtractS3Credentials env (Target action) of
           Inl err \<Rightarrow>
             (returnError env (S3DownloadAction action)
                (''Failed to extract S3 credentials: '' @ err), calls)
         | Inr (url, region, accessKey, secretKey, bucketName) \<Rightarrow>
             (case Object action of
                None \<Rightarrow> (returnError env (S3DownloadAction action) ''Object is required'', calls)
              | Some object \<Rightarrow>
                  (case objectKey object of
                     None \<Rightarrow>
                       (returnError env (S3DownloadAction action)
                          ''Object identifier (S3 key) is required'', calls)
                   | Some s3Key \<Rightarrow>
                       let downloadPath = downloadPathFor object s3Key;
                           calls = calls @ [LoadConfig region accessKey secretKey]
                       in case createS3Client env url region accessKey secretKey of
                            Inl err \<Rightarrow>
                              (returnError env (S3DownloadAction action)
                                 (''Failed to create S3 client: '' @ err), calls)
                          | Inr client \<Rightarrow>
                              let calls = calls @ [GetObjectCall bucketName s3Key]
                              in case GetObject env client bucketName s3Key of
                                   Inl err \<Rightarrow>
                                     (returnError env (S3DownloadAction action)
                                        (''Failed to download file: '' @ err), calls)
                                 | Inr body \<Rightarrow>
                                     let calls = calls @ [CreateFile downloadPath]
                                     in case Create env downloadPath of
                                          Some err \<Rightarrow>
                                            (returnError env (S3DownloadAction action)
                                               (''Failed to create local file: '' @ err), calls)
                                        | None \<Rightarrow>
                                            let calls = calls @ [CopyBody downloadPath]
                                            in case Copy env downloadPath body of
                                                 Inl err \<Rightarrow>
                                                   (returnError env (S3DownloadAction action)
                                                      (''Failed to write file: '' @ err), calls)
                                               | Inr written \<Rightarrow>
                                                   (JSON 200 (S3DownloadAction
                                                      (action\<lparr>Result := Some (ObjectResult
                                                          \<lparr>AtType = ''MediaObject'',
                                                           Identifier = s3Key,
                                                           Name = Base s3Key,
                                                           ContentUrl = downloadPath,
                                                           ContentSize = written,
                                                           EncodingFormat = EncodingFormat object,
                                                           UploadDate = []\<rparr>),
                                                         ActionStatus := ''CompletedActionStatus'',
                                                         EndTime := Now env 1\<rparr>)), calls))))"

definition executeDeleteActionTyped ::
  "Env \<Rightarrow> S3Action \<Rightarrow> TypedAction Response \<times> Call list" where
  "executeDeleteActionTyped env action0 =
     (let action = action0\<lparr>StartTime := Now env 0\<rparr>;
          calls = [Enter DeleteHandler]
      in case ExtractS3Credentials env (Target action) of
           Inl err \<Rightarrow>
             (returnError env (S3DeleteAction action)
                (''Failed to extract S3 credentials: '' @ err), calls)
         | Inr (url, region, accessKey, secretKey, bucketName) \<Rightarrow>
             (case Object action of
                None \<Rightarrow> (returnError env (S3DeleteAction action) ''Object is required'', calls)
              | Some object \<Rightarrow>
                  (case objectKey object of
                     None \<Rightarrow>
                       (returnError env (S3DeleteAction action)
                          ''Object identifier (S3 key) is required'', calls)
                   | Some s3Key \<Rightarrow>
                       let calls = calls @ [LoadConfig region accessKey secretKey]
                       in case createS3Client env url region accessKey secretKey of
                            Inl err \<Rightarrow>
                              (returnError env (S3DeleteAction action)
                                 (''Failed to create S3 client: '' @ err), calls)
                          | Inr client \<Rightarrow>
                              let calls = calls @ [DeleteObjectCall bucketName s3Key]
                              in case DeleteObject env client bucketName s3Key of
                                   Some err \<Rightarrow>
                                     (returnError env (S3DeleteAction action)
                                        (''Failed to delete file: '' @ err), calls)
                                 | None \<Rightarrow>
                                     (JSON 200 (S3DeleteAction
                                        (action\<lparr>ActionStatus := ''CompletedActionStatus'',
                                           EndTime := Now env 1\<rparr>)), calls))))"

definition executeListActionTyped ::
  "Env \<Rightarrow> S3Action \<Rightarrow> TypedAction Response \<times> Call list" where
  "executeListActionTyped env action0 =
     (let action = action0\<lparr>StartTime := Now env 0\<rparr>;
          calls = [Enter ListHandler]
      in case ExtractS3Credentials env (Target action) of
           Inl err \<Rightarrow>
             (returnError env (S3ListAction action)
                (''Failed to extract S3 credentials: '' @ err), calls)
         | Inr (url, region, accessKey, secretKey, bucketName) \<Rightarrow>
             let calls = calls @ [LoadConfig region accessKey secretKey]
             in case createS3Client env url region accessKey secretKey of
                  Inl err \<Rightarrow>
                    (returnError env (S3ListAction action)
                       (''Failed to create S3 client: '' @ err), calls)
                | Inr client \<Rightarrow>
                    let prefix = (if Query action \<noteq> [] then Some (Query action) else None);
                        calls = calls @ [ListObjectsCall bucketName prefix]
                    in case ListObjectsV2 env client bucketName prefix of
                         Inl err \<Rightarrow>
                           (returnError env (S3ListAction action)
                              (''Failed to list objects: '' @ err), calls)
                       | Inr contents \<Rightarrow>
                           (JSON 200 (S3ListAction
                              (action\<lparr>Result := Some (ListResult
                                           (map (listedObject bucketName) contents)),
                                 ActionStatus := ''CompletedActionStatus'',
                                 EndTime := Now env 1\<rparr>)), calls))"

text \<open>The entry point of the typed file: reading the body or parsing it may fail with
  status 400; the type switch sends each of the four types to its handler and rejects
  every other type with status 400.\<close>

definition handleSemanticActionTyped ::
  "Env \<Rightarrow> string + string \<Rightarrow> TypedAction Response \<times> Call list" where
  "handleSemanticActionTyped env request =
     (case request of
        Inl err \<Rightarrow> (HTTPError 400 (''Failed to read request body: '' @ err), [Enter SemanticHandler])
      | Inr body \<Rightarrow>
          (case ParseS3Action env body of
             Inl err \<Rightarrow>
               (HTTPError 400 (''Failed to parse action: '' @ err), [Enter SemanticHandler])
           | Inr (S3UploadAction v) \<Rightarrow>
               (let (response, calls) = executeUploadActionTyped env v
                in (response, Enter SemanticHandler # calls))
           | Inr (S3DownloadAction v) \<Rightarrow>
               (let (response, calls) = executeDownloadActionTyped env v
                in (response, Enter SemanticHandler # calls))
           | Inr (S3DeleteAction v) \<Rightarrow>
               (let (response, calls) = executeDeleteActionTyped env v
                in (response, Enter SemanticHandler # calls))
           | Inr (S3ListAction v) \<Rightarrow>
               (let (response, calls) = executeListActionTyped env v
                in (response, Enter SemanticHandler # calls))
           | Inr (OtherAction t) \<Rightarrow>
               (HTTPError 400 (''Unsupported action type: '' @ t), [Enter SemanticHandler])))"

section \<open>The current handler file\<close>

text \<open>
  The handlers of \<^verbatim>\<open>src/cmd/semantic_api.go\<close> work on the generic action. Extraction of bucket,
  object, credentials and target key, the error response and the success status belong to
  the semantic library and are taken from the environment. The upload date is the only
  clock read of this file.
\<close>

definition executeUploadAction ::
  "Env \<Rightarrow> SemanticAction \<Rightarrow> SemanticAction Response \<times> Call list" where
  "executeUploadAction env action =
     (let calls = [Enter UploadHandler]
      in case GetS3BucketFromAction env action of
           Inl err \<Rightarrow>
             (ReturnActionError env action ''Failed to extract S3 bucket'' (Some err), calls)
         | Inr bucket \<Rightarrow>
             (case GetS3ObjectFromAction env action of
                Inl err \<Rightarrow>
                  (ReturnActionError env action ''Failed to extract S3 object'' (Some err), calls)
              | Inr object \<Rightarrow>
                  (case ExtractS3Credentials env (Some bucket) of
                     Inl err \<Rightarrow>
                       (ReturnActionError env action
                          ''Failed to extract S3 credentials'' (Some err), calls)
                   | Inr (url, region, accessKey, secretKey, bucketName) \<Rightarrow>
                       let filePath = ContentUrl object
                       in if filePath = [] then
                            (ReturnActionError env action
                               ''Object contentUrl (file path) is required'' None, calls)
                          else
                            let s3Key =
                                  uploadKey (GetS3TargetUrlFromAction env action) object filePath;
                                calls = calls @
                                  [UploadFile url accessKey secretKey bucketName filePath s3Key]
                            in case HetznerUploadFile env url accessKey secretKey bucketName
                                      filePath s3Key of
                                 Some err \<Rightarrow>
                                   (ReturnActionError env action
                                      ''Failed to upload file'' (Some err), calls)
                               | None \<Rightarrow>
                                   let calls = calls @ [StatFile filePath]
                                   in case Stat env filePath of
                                        Inr fileSize \<Rightarrow>
                                          (JSON 200 (SetSuccessOnAction env
                                             (action\<lparr>Properties := (Properties action)
                                                (''result'' \<mapsto> ObjectValue
                                                   \<lparr>AtType = ''MediaObject'',
                                                    Identifier = s3Key,
                                                    Name = Base filePath,
                                                    ContentUrl =
                                                      ''s3://'' @ bucketName @ ''/'' @ s3Key,
                                                    ContentSize = fileSize,
                                                    EncodingFormat = EncodingFormat object,
                                                    UploadDate = Now env 0\<rparr>)\<rparr>)), calls)
                                      | Inl err \<Rightarrow>
                                          (JSON 200 (SetSuccessOnAction env action), calls))))"

definition executeDownloadAction ::
  "Env \<Rightarrow> SemanticAction \<Rightarrow> SemanticAction Response \<times> Call list" where
  "executeDownloadAction env action =
     (let calls = [Enter DownloadHandler]
      in case GetS3BucketFromAction env action of
           Inl err \<Rightarrow>
             (ReturnActionError env action ''Failed to extract S3 bucket'' (Some err), calls)
         | Inr bucket \<Rightarrow>
             (case GetS3ObjectFromAction env action of
                Inl err \<Rightarrow>
                  (ReturnActionError env action ''Failed to extract S3 object'' (Some err), calls)
              | Inr object \<Rightarrow>
                  (case ExtractS3Credentials env (Some bucket) of
                     Inl err \<Rightarrow>
                       (ReturnActionError env action
                          ''Failed to extract S3 credentials'' (Some err), calls)
                   | Inr (url, region, accessKey, secretKey, bucketName) \<Rightarrow>
                       (case objectKey object of
                          None \<Rightarrow>
                            (ReturnActionError env action
                               ''Object identifier (S3 key) is required'' None, calls)
                        | Some s3Key \<Rightarrow>
                            let downloadPath = downloadPathFor object s3Key;
                                calls = calls @ [LoadConfig region accessKey secretKey]
                            in case createS3Client env url region accessKey secretKey of
                                 Inl err \<Rightarrow>
                                   (ReturnActionError env action
                                      ''Failed to create S3 client'' (Some err), calls)
                               | Inr client \<Rightarrow>
                                   let calls = calls @ [GetObjectCall bucketName s3Key]
                                   in case GetObject env client bucketName s3Key of
                                        Inl err \<Rightarrow>
                                          (ReturnActionError env action
                                             ''Failed to download file'' (Some err), calls)
                                      | Inr body \<Rightarrow>
                                          let calls = calls @ [CreateFile downloadPath]
                                          in case Create env downloadPath of
                                               Some err \<Rightarrow>
                                                 (ReturnActionError env action
                                                    ''Failed to create local file'' (Some err),
                                                  calls)
                                             | None \<Rightarrow>
                                                 let calls = calls @ [CopyBody downloadPath]
                                                 in case Copy env downloadPath body of
                                                      Inl err \<Rightarrow>
                                                        (ReturnActionError env action
                                                           ''Failed to write file'' (Some err),
                                                         calls)
                                                    | Inr written \<Rightarrow>
                                                        (JSON 200 (SetSuccessOnAction env
                                                           (action\<lparr>Properties :=
                                                              (Properties action)
                                                              (''result'' \<mapsto> ObjectValue
                                                                 \<lparr>AtType = ''MediaObject'',
                                                                  Identifier = s3Key,
                                                                  Name = Base s3Key,
                                                                  ContentUrl = downloadPath,
                                                                  ContentSize = written,
                                                                  EncodingFormat =
                                                                    EncodingFormat object,
                                                                  UploadDate = []\<rparr>)\<rparr>)),
                                                         calls)))))"

definition executeDeleteAction ::
  "Env \<Rightarrow> SemanticAction \<Rightarrow> SemanticAction Response \<times> Call list" where
  "executeDeleteAction env action =
     (let calls = [Enter DeleteHandler]
      in case GetS3BucketFromAction env action of
           Inl err \<Rightarrow>
             (ReturnActionError env action ''Failed to extract S3 bucket'' (Some err), calls)
         | Inr bucket \<Rightarrow>
             (case GetS3ObjectFromAction env action of
                Inl err \<Rightarrow>
                  (ReturnActionError env action ''Failed to extract S3 object'' (Some err), calls)
              | Inr object \<Rightarrow>
                  (case ExtractS3Credentials env (Some bucket) of
                     Inl err \<Rightarrow>
                       (ReturnActionError env action
                          ''Failed to extract S3 credentials'' (Some err), calls)
                   | Inr (url, region, accessKey, secretKey, bucketName) \<Rightarrow>
                       (case objectKey object of
                          None \<Rightarrow>
                            (ReturnActionError env action
                               ''Object identifier (S3 key) is required'' None, calls)
                        | Some s3Key \<Rightarrow>
                            let calls = calls @ [LoadConfig region accessKey secretKey]
                            in case createS3Client env url region accessKey secretKey of
                                 Inl err \<Rightarrow>
                                   (ReturnActionError env action
                                      ''Failed to create S3 client'' (Some err), calls)
                               | Inr client \<Rightarrow>
                                   let calls = calls @ [DeleteObjectCall bucketName s3Key]
                                   in case DeleteObject env client bucketName s3Key of
                                        Some err \<Rightarrow>
                                          (ReturnActionError env action
                                             ''Failed to delete file'' (Some err), calls)
                                      | None \<Rightarrow>
                                          (JSON 200 (SetSuccessOnAction env action), calls)))))"

text \<open>The prefix of a listing: the \<^verbatim>\<open>query\<close> property when it is a string and not
  empty (the type assertion fails on any other value and on a missing key).\<close>

definition queryPrefix :: "SemanticAction \<Rightarrow> string option" where
  "queryPrefix action =
     (case Properties action ''query'' of
        Some (StringValue query) \<Rightarrow> if query \<noteq> [] then Some query else None
      | _ \<Rightarrow> None)"

definition executeListAction ::
  "Env \<Rightarrow> SemanticAction \<Rightarrow> SemanticAction Response \<times> Call list" where
  "executeListAction env action =
     (let calls = [Enter ListHandler]
      in case GetS3BucketFromAction env action of
           Inl err \<Rightarrow>
             (ReturnActionError env action ''Failed to extract S3 bucket'' (Some err), calls)
         | Inr bucket \<Rightarrow>
             (case ExtractS3Credentials env (Some bucket) of
                Inl err \<Rightarrow>
                  (ReturnActionError env action
                     ''Failed to extract S3 credentials'' (Some err), calls)
              | Inr (url, region, accessKey, secretKey, bucketName) \<Rightarrow>
                  let calls = calls @ [LoadConfig region accessKey secretKey]
                  in case createS3Client env url region accessKey secretKey of
                       Inl err \<Rightarrow>
                         (ReturnActionError env action
                            ''Failed to create S3 client'' (Some err), calls)
                     | Inr client \<Rightarrow>
                         let prefix = queryPrefix action;
                             calls = calls @ [ListObjectsCall bucketName prefix]
                         in case ListObjectsV2 env client bucketName prefix of
                              Inl err \<Rightarrow>
                                (ReturnActionError env action
                                   ''Failed to list objects'' (Some err), calls)
                            | Inr contents \<Rightarrow>
                                (JSON 200 (SetSuccessOnAction env
                                   (action\<lparr>Properties := (Properties action)
                                      (''result'' \<mapsto> ObjectsValue
                                         (map (listedObject bucketName) contents))\<rparr>)),
                                 calls)))"

text \<open>The dispatcher: a switch on the discriminator with a rejecting default.\<close>

definition handleSemanticAction ::
  "Env \<Rightarrow> string + string \<Rightarrow> SemanticAction Response \<times> Call list" where
  "handleSemanticAction env request =
     (case request of
        Inl err \<Rightarrow> (HTTPError 400 (''Failed to read request body: '' @ err), [Enter SemanticHandler])
      | Inr body \<Rightarrow>
          (case ParseSemanticAction env body of
             Inl err \<Rightarrow>
               (HTTPError 400 (''Failed to parse action: '' @ err), [Enter SemanticHandler])
           | Inr action \<Rightarrow>
               if Type action = ''CreateAction'' then
                 (let (response, calls) = executeUploadAction env action
                  in (response, Enter SemanticHandler # calls))
               else if Type action = ''DownloadAction'' then
                 (let (response, calls) = executeDownloadAction env action
                  in (response, Enter SemanticHandler # calls))
               else if Type action = ''DeleteAction'' then
                 (let (response, calls) = executeDeleteAction env action
                  in (response, Enter SemanticHandler # calls))
               else if Type action = ''SearchAction'' then
                 (let (response, calls) = executeListAction env action
                  in (response, Enter SemanticHandler # calls))
               else
                 (HTTPError 400 (''Unsupported action type: '' @ Type action),
                  [Enter SemanticHandler])))"

section \<open>The REST adapter\<close>

text \<open>The last file in \<^verbatim>\<open>src/cmd/integration_test.go\<close>. A request body that does not
  bind is the error of \<^verbatim>\<open>c.Bind\<close>; path and query parameters are plain strings.\<close>

record UploadObjectRequest =
  Key :: string
  Content :: string
  Bucket :: string

text \<open>\<open>RequestName\<close> is the field \<^verbatim>\<open>Name\<close> of \<^verbatim>\<open>CreateBucketRequest\<close>.\<close>

record CreateBucketRequest =
  RequestName :: string

text \<open>\<^verbatim>\<open>callSemanticHandler\<close> marshals the envelope and calls the dispatcher on a request
  whose body is that JSON text; reading such a body cannot fail.\<close>

definition callSemanticHandler ::
  "Env \<Rightarrow> Json \<Rightarrow> SemanticAction Response \<times> Call list" where
  "callSemanticHandler env action =
     (case Marshal env action of
        Inl err \<Rightarrow> (JSONMap 500 [(''error'', ''Failed to marshal action: '' @ err)], [])
      | Inr actionJSON \<Rightarrow> handleSemanticAction env (Inr actionJSON))"

text \<open>Each adapter builds its envelope as a JSON object and adds the
  \<^verbatim>\<open>instrument\<close> entry when the request names a bucket; \<open>jsonMember\<close> reads an entry
  of an object.\<close>

fun jsonMember :: "string \<Rightarrow> Json \<Rightarrow> Json option" where
  "jsonMember name (JObject entries) = map_of entries name"
| "jsonMember name (JString _) = None"

definition instrument :: "string \<Rightarrow> (string \<times> Json) list" where
  "instrument bucket =
     (if bucket \<noteq> [] then
        [(''instrument'', JObject [(''@type'', JString ''PropertyValue''),
                                   (''name'', JString ''bucket''),
                                   (''value'', JString bucket)])]
      else [])"

definition uploadEnvelope :: "UploadObjectRequest \<Rightarrow> Json" where
  "uploadEnvelope req =
     JObject ([(''@context'', JString ''https://schema.org''),
               (''@type'', JString ''CreateAction''),
               (''object'', JObject [(''@type'', JString ''DigitalDocument''),
                                     (''identifier'', JString (Key req)),
                                     (''text'', JString (Content req))])]
              @ instrument (Bucket req))"

definition uploadObjectREST ::
  "Env \<Rightarrow> string + UploadObjectRequest \<Rightarrow> SemanticAction Response \<times> Call list" where
  "uploadObjectREST env bound =
     (case bound of
        Inl err \<Rightarrow> (JSONMap 400 [(''error'', ''Invalid request: '' @ err)], [])
      | Inr req \<Rightarrow>
          if Key req = [] then (JSONMap 400 [(''error'', ''key is required'')], [])
          else if Content req = [] then (JSONMap 400 [(''error'', ''content is required'')], [])
          else callSemanticHandler env (uploadEnvelope req))"

definition getObjectEnvelope :: "string \<Rightarrow> string \<Rightarrow> Json" where
  "getObjectEnvelope key bucket =
     JObject ([(''@context'', JString ''https://schema.org''),
               (''@type'', JString ''SearchAction''),
               (''object'', JObject [(''@type'', JString ''DigitalDocument''),
                                     (''identifier'', JString key)])]
              @ instrument bucket)"

definition getObjectREST ::
  "Env \<Rightarrow> string \<Rightarrow> string \<Rightarrow> SemanticAction Response \<times> Call list" where
  "getObjectREST env key bucket =
     (if key = [] then (JSONMap 400 [(''error'', ''key is required'')], [])
      else callSemanticHandler env (getObjectEnvelope key bucket))"

definition deleteObjectEnvelope :: "string \<Rightarrow> string \<Rightarrow> Json" where
  "deleteObjectEnvelope key bucket =
     JObject ([(''@context'', JString ''https://schema.org''),
               (''@type'', JString ''DeleteAction''),
               (''object'', JObject [(''@type'', JString ''DigitalDocument''),
                                     (''identifier'', JString key)])]
              @ instrument bucket)"

definition deleteObjectREST ::
  "Env \<Rightarrow> string \<Rightarrow> string \<Rightarrow> SemanticAction Response \<times> Call list" where
  "deleteObjectREST env key bucket =
     (if key = [] then (JSONMap 400 [(''error'', ''key is required'')], [])
      else callSemanticHandler env (deleteObjectEnvelope key bucket))"

definition listBucketsREST :: "Env \<Rightarrow> SemanticAction Response \<times> Call list" where
  "listBucketsREST env =
     callSemanticHandler env
       (JObject [(''@context'', JString ''https://schema.org''),
                 (''@type'', JString ''SearchAction''),
                 (''query'', JString ''list-buckets'')])"

definition bucketEnvelope :: "CreateBucketRequest \<Rightarrow> Json" where
  "bucketEnvelope req =
     JObject [(''@context'', JString ''https://schema.org''),
              (''@type'', JString ''CreateAction''),
              (''object'', JObject [(''@type'', JString ''Thing''),
                                    (''name'', JString (RequestName req)),
                                    (''identifier'', JString ''bucket'')])]"

definition createBucketREST ::
  "Env \<Rightarrow> string + CreateBucketRequest \<Rightarrow> SemanticAction Response \<times> Call list" where
  "createBucketREST env bound =
     (case bound of
        Inl err \<Rightarrow> (JSONMap 400 [(''error'', ''Invalid request: '' @ err)], [])
      | Inr req \<Rightarrow>
          if RequestName req = [] then (JSONMap 400 [(''error'', ''name is required'')], [])
          else callSemanticHandler env (bucketEnvelope req))"

section \<open>An example environment\<close>

text \<open>
  For evaluating the handlers on concrete requests: a store that accepts every call and
  holds three objects, a file system where every file exists, and simple stand-ins for
  the library helpers. \<open>resolveCredentials\<close> reads the target as the README shapes it.
  The theorems below hold for every environment; this one only instantiates them.
\<close>

definition resolveCredentials ::
  "S3Bucket option \<Rightarrow> string + (string \<times> string \<times> string \<times> string \<times> string)" where
  "resolveCredentials target =
     (case target of
        None \<Rightarrow> Inl ''bucket is nil''
      | Some bucket \<Rightarrow>
          (case (map_of (AdditionalProperty bucket) ''region'',
                 map_of (AdditionalProperty bucket) ''accessKey'',
                 map_of (AdditionalProperty bucket) ''secretKey'') of
             (Some region, Some accessKey, Some secretKey) \<Rightarrow>
               if Url bucket = [] \<or> BucketIdentifier bucket = [] \<or> region = []
                  \<or> accessKey = [] \<or> secretKey = []
               then Inl ''missing required S3 credentials''
               else Inr (Url bucket, region, accessKey, secretKey, BucketIdentifier bucket)
           | _ \<Rightarrow> Inl ''missing required S3 credentials''))"

definition storedObjects :: "ListedObject list" where
  "storedObjects =
     [\<lparr>ObjectKey = ''data/input.json'', ObjectSize = 12, LastModified = ''2025-11-08T09:00:00Z''\<rparr>,
      \<lparr>ObjectKey = ''logs/app.log'', ObjectSize = 7, LastModified = ''2025-11-08T09:30:00Z''\<rparr>,
      \<lparr>ObjectKey = ''test/integration-upload.txt'', ObjectSize = 40,
       LastModified = ''2025-11-08T09:45:00Z''\<rparr>]"

definition exampleEnv :: Env where
  "exampleEnv =
     \<lparr>Now = (\<lambda>k. if k = 0 then ''2025-11-08T10:00:00Z''
                  else if k = 1 then ''2025-11-08T10:00:01Z'' else ''2025-11-08T10:00:02Z''),
      ExtractS3Credentials = resolveCredentials,
      HetznerUploadFile = (\<lambda>url accessKey secretKey bucketName filePath s3Key. None),
      Stat = (\<lambda>path. Inr 40),
      LoadDefaultConfig = (\<lambda>region accessKey secretKey. None),
      GetObject = (\<lambda>client bucketName s3Key. Inr ''stored content''),
      Create = (\<lambda>path. None),
      Copy = (\<lambda>path body. Inr (int (length body))),
      DeleteObject = (\<lambda>client bucketName s3Key. None),
      ListObjectsV2 = (\<lambda>client bucketName prefix.
         Inr (filter (\<lambda>obj. case prefix of None \<Rightarrow> True
                                | Some p \<Rightarrow> take (length p) (ObjectKey obj) = p) storedObjects)),
      ParseS3Action = (\<lambda>body. Inl ''unexpected end of JSON input''),
      ParseSemanticAction = (\<lambda>body. Inl ''unexpected end of JSON input''),
      GetS3BucketFromAction = (\<lambda>action.
         case Properties action ''target'' of
           Some (BucketValue bucket) \<Rightarrow> Inr bucket
         | _ \<Rightarrow> Inl ''no target found in action properties''),
      GetS3ObjectFromAction = (\<lambda>action.
         case Properties action ''object'' of
           Some (ObjectValue object) \<Rightarrow> Inr object
         | _ \<Rightarrow> Inl ''no object found in action properties''),
      GetS3TargetUrlFromAction = (\<lambda>action.
         case Properties action ''targetUrl'' of
           Some (StringValue targetUrl) \<Rightarrow> targetUrl
         | _ \<Rightarrow> []),
      ReturnActionError = (\<lambda>action message err.
         JSON 500 (action\<lparr>Properties := (Properties action)
           (''actionStatus'' \<mapsto> StringValue ''FailedActionStatus'',
            ''error'' \<mapsto> StringValue message)\<rparr>)),
      SetSuccessOnAction = (\<lambda>action.
         action\<lparr>Properties := (Properties action)
           (''actionStatus'' \<mapsto> StringValue ''CompletedActionStatus'')\<rparr>),
      Marshal = (\<lambda>action. Inr ''{}'')\<rparr>"

definition exampleBucket :: S3Bucket where
  "exampleBucket =
     \<lparr>BucketIdentifier = ''my-bucket'', Url = ''https://fsn1.your-objectstorage.com'',
      AdditionalProperty =
        [(''region'', ''fsn1''), (''accessKey'', ''AK''), (''secretKey'', ''SK'')]\<rparr>"

text \<open>The same target with the access key left out.\<close>

definition keylessBucket :: S3Bucket where
  "keylessBucket = exampleBucket\<lparr>AdditionalProperty := [(''region'', ''fsn1''), (''secretKey'', ''SK'')]\<rparr>"

definition exampleObject :: S3Object where
  "exampleObject =
     \<lparr>AtType = ''MediaObject'', Identifier = ''data/input.json'', Name = [],
      ContentUrl = ''/tmp/input.json'', ContentSize = 0,
      EncodingFormat = ''application/json'', UploadDate = []\<rparr>"

text \<open>A typed action as it arrives: no status, no result and no error yet.\<close>

definition typedRequest :: "S3Bucket option \<Rightarrow> S3Object option \<Rightarrow> S3Action" where
  "typedRequest target object =
     \<lparr>StartTime = [], EndTime = [], ActionStatus = [], Target = target, Object = object,
      TargetUrl = [], Query = [], Result = None, Error = None\<rparr>"

definition semanticRequest :: "string \<Rightarrow> (string \<times> PropertyData) list \<Rightarrow> SemanticAction" where
  "semanticRequest actionType properties =
     \<lparr>Type = actionType, Properties = map_of properties\<rparr>"

text \<open>A request of the given kind for the example object: on the example target, and
  on the target without access key.\<close>

definition objectRequest :: "string \<Rightarrow> SemanticAction" where
  "objectRequest actionType =
     semanticRequest actionType
       [(''target'', BucketValue exampleBucket), (''object'', ObjectValue exampleObject)]"

definition keylessRequest :: "string \<Rightarrow> SemanticAction" where
  "keylessRequest actionType =
     semanticRequest actionType
       [(''target'', BucketValue keylessBucket), (''object'', ObjectValue exampleObject)]"

text \<open>An object stored under the given key, requested without a local path.\<close>

definition nestedObject :: "string \<Rightarrow> S3Object" where
  "nestedObject key = exampleObject\<lparr>Identifier := key, ContentUrl := []\<rparr>"

text \<open>An object known by its name only, with a local path; an object with neither
  identifier nor name; a listing request with a query; a typed upload with a target
  key.\<close>

definition namedObject :: S3Object where
  "namedObject =
     exampleObject\<lparr>Identifier := [], Name := ''report.pdf'', ContentUrl := ''/data/report.pdf''\<rparr>"

definition namelessObject :: S3Object where
  "namelessObject = exampleObject\<lparr>Identifier := [], Name := []\<rparr>"

definition listRequest :: "string \<Rightarrow> SemanticAction" where
  "listRequest query =
     semanticRequest ''SearchAction''
       [(''target'', BucketValue exampleBucket), (''query'', StringValue query)]"

definition uploadRequest :: "string \<Rightarrow> S3Object \<Rightarrow> S3Action" where
  "uploadRequest targetUrl object =
     (typedRequest (Some exampleBucket) (Some object))\<lparr>TargetUrl := targetUrl\<rparr>"

text \<open>An environment whose parser returns what the envelope of a REST get says: a search
  action with the object identifier and, as the envelope has none, no target.\<close>

definition restEnv :: Env where
  "restEnv =
     exampleEnv\<lparr>ParseSemanticAction := (\<lambda>body.
       Inr (semanticRequest ''SearchAction''
              [(''object'', ObjectValue (exampleObject\<lparr>AtType := ''DigitalDocument'',
                  ContentUrl := [], EncodingFormat := []\<rparr>))]))\<rparr>"

section \<open>Dispatch\<close>

text \<open>
  Claim C4. An envelope that parses and whose discriminator is none of
  \<^verbatim>\<open>CreateAction\<close>, \<^verbatim>\<open>DownloadAction\<close>, \<^verbatim>\<open>DeleteAction\<close>, \<^verbatim>\<open>SearchAction\<close> is answered
  with status 400 and the message that the action type is unsupported, and the trace
  holds neither a handler entry nor a store call. The typed file does the same for every
  parsed value that is none of its four action types.
\<close>

theorem unsupported_type_is_rejected:
  "(ParseSemanticAction env body = Inr action \<and>
    Type action \<notin> {''CreateAction'', ''DownloadAction'', ''DeleteAction'', ''SearchAction''}
    \<longrightarrow> fst (handleSemanticAction env (Inr body)) =
            HTTPError 400 (''Unsupported action type: '' @ Type action)
        \<and> filter isHandlerEntry (snd (handleSemanticAction env (Inr body))) = []
        \<and> filter isStoreCall (snd (handleSemanticAction env (Inr body))) = [])
   \<and> (ParseS3Action env body = Inr (OtherAction t)
    \<longrightarrow> fst (handleSemanticActionTyped env (Inr body)) =
            HTTPError 400 (''Unsupported action type: '' @ t)
        \<and> filter isHandlerEntry (snd (handleSemanticActionTyped env (Inr body))) = []
        \<and> filter isStoreCall (snd (handleSemanticActionTyped env (Inr body))) = [])"
  by (simp add: handleSemanticAction_def handleSemanticActionTyped_def)

theorem unsupported_type_is_rejected_witness:
  "handleSemanticAction
     (exampleEnv\<lparr>ParseSemanticAction := (\<lambda>body. Inr (semanticRequest ''UpdateAction'' []))\<rparr>)
     (Inr ''update request'') =
   (HTTPError 400 ''Unsupported action type: UpdateAction'', [Enter SemanticHandler])
   \<and> handleSemanticActionTyped
     (exampleEnv\<lparr>ParseS3Action := (\<lambda>body. Inr (OtherAction ''*semantic.S3CopyAction''))\<rparr>)
     (Inr ''copy request'') =
   (HTTPError 400 ''Unsupported action type: *semantic.S3CopyAction'', [Enter SemanticHandler])"
  using unsupported_type_is_rejected
    [of "exampleEnv\<lparr>ParseSemanticAction := (\<lambda>body. Inr (semanticRequest ''UpdateAction'' []))\<rparr>"
        "''update request''" "semanticRequest ''UpdateAction'' []"]
    unsupported_type_is_rejected
    [of "exampleEnv\<lparr>ParseS3Action := (\<lambda>body. Inr (OtherAction ''*semantic.S3CopyAction''))\<rparr>"
        "''copy request''" _ "''*semantic.S3CopyAction''"]
  by (simp add: semanticRequest_def handleSemanticAction_def handleSemanticActionTyped_def)

section \<open>Terminal status, result and error\<close>

text \<open>
  Claim C1, counterexample. A delete that succeeds is sent with the completed status and
  with neither a result nor an error: the delete handler never assigns a result. The
  delete handler of the current file likewise hands the action to the library's success
  helper as it came, without a result property.
\<close>

theorem completed_delete_without_result:
  "executeDeleteActionTyped exampleEnv (typedRequest (Some exampleBucket) (Some exampleObject)) =
     (JSON 200 (S3DeleteAction
        \<lparr>StartTime = ''2025-11-08T10:00:00Z'', EndTime = ''2025-11-08T10:00:01Z'',
         ActionStatus = ''CompletedActionStatus'', Target = Some exampleBucket,
         Object = Some exampleObject, TargetUrl = [], Query = [],
         Result = None, Error = None\<rparr>),
      [Enter DeleteHandler, LoadConfig ''fsn1'' ''AK'' ''SK'',
       DeleteObjectCall ''my-bucket'' ''data/input.json''])
   \<and> executeDeleteAction exampleEnv (objectRequest ''DeleteAction'') =
     (JSON 200 (SetSuccessOnAction exampleEnv (objectRequest ''DeleteAction'')),
      [Enter DeleteHandler, LoadConfig ''fsn1'' ''AK'' ''SK'',
       DeleteObjectCall ''my-bucket'' ''data/input.json''])
   \<and> Properties (objectRequest ''DeleteAction'') ''result'' = None"
  by (simp add: executeDeleteActionTyped_def executeDeleteAction_def exampleEnv_def
        typedRequest_def objectRequest_def semanticRequest_def exampleBucket_def
        exampleObject_def resolveCredentials_def objectKey_def createS3Client_def Let_def)

text \<open>
  Claim C1, amended. For an action that arrives with neither result nor error, every
  typed handler answers with the failed status, an error and no result, or with the
  completed status and no error; a result and an error are never both present. A
  completed download or listing always carries a result, a completed upload carries one
  exactly when the local file can be inspected after the upload, and a completed delete
  carries none.
\<close>

theorem terminal_status_result_error:
  assumes "Result a = None" and "Error a = None"
  shows "(\<exists>code v. fst (executeUploadActionTyped env a) = JSON code (S3UploadAction v) \<and>
            (ActionStatus v = ''FailedActionStatus'' \<and> Error v \<noteq> None \<and> Result v = None
             \<or> ActionStatus v = ''CompletedActionStatus'' \<and> Error v = None \<and>
               (Result v \<noteq> None \<longleftrightarrow>
                  (\<exists>object n. Object a = Some object \<and> Stat env (ContentUrl object) = Inr n))))
       \<and> (\<exists>code v. fst (executeDownloadActionTyped env a) = JSON code (S3DownloadAction v) \<and>
            (ActionStatus v = ''FailedActionStatus'' \<and> Error v \<noteq> None \<and> Result v = None
             \<or> ActionStatus v = ''CompletedActionStatus'' \<and> Error v = None \<and> Result v \<noteq> None))
       \<and> (\<exists>code v. fst (executeDeleteActionTyped env a) = JSON code (S3DeleteAction v) \<and>
            (ActionStatus v = ''FailedActionStatus'' \<and> Error v \<noteq> None \<and> Result v = None
             \<or> ActionStatus v = ''CompletedActionStatus'' \<and> Error v = None \<and> Result v = None))
       \<and> (\<exists>code v. fst (executeListActionTyped env a) = JSON code (S3ListAction v) \<and>
            (ActionStatus v = ''FailedActionStatus'' \<and> Error v \<noteq> None \<and> Result v = None
             \<or> ActionStatus v = ''CompletedActionStatus'' \<and> Error v = None \<and> Result v \<noteq> None))"
  (is "?upload \<and> ?download \<and> ?delete \<and> ?list")
proof (intro conjI)
  show ?upload
    using assms
    by (auto simp: executeUploadActionTyped_def Let_def failed_def
             split: sum.splits option.splits prod.splits)
  show ?download
    using assms
    by (auto simp: executeDownloadActionTyped_def Let_def failed_def
             split: sum.splits option.splits prod.splits)
  show ?delete
    using assms
    by (auto simp: executeDeleteActionTyped_def Let_def failed_def
             split: sum.splits option.splits prod.splits)
  show ?list
    using assms
    by (auto simp: executeListActionTyped_def Let_def failed_def
             split: sum.splits option.splits prod.splits)
qed

theorem terminal_status_result_error_witness:
  "Result (typedRequest (Some exampleBucket) (Some exampleObject)) = None
   \<and> Error (typedRequest (Some exampleBucket) (Some exampleObject)) = None
   \<and> (\<exists>code v.
        fst (executeDownloadActionTyped exampleEnv
               (typedRequest (Some exampleBucket) (Some exampleObject))) =
          JSON code (S3DownloadAction v) \<and>
        (ActionStatus v = ''FailedActionStatus'' \<and> Error v \<noteq> None \<and> Result v = None
         \<or> ActionStatus v = ''CompletedActionStatus'' \<and> Error v = None \<and> Result v \<noteq> None))"
proof -
  have clean: "Result (typedRequest (Some exampleBucket) (Some exampleObject)) = None"
    "Error (typedRequest (Some exampleBucket) (Some exampleObject)) = None"
    by (simp_all add: typedRequest_def)
  show ?thesis
    using clean terminal_status_result_error [OF clean, of exampleEnv]
    by blast
qed

section \<open>Failures and the HTTP status\<close>

text \<open>
  Claim C3, counterexample. An upload whose target lacks the access key fails at the
  credential extraction; the response carries the failure in the envelope, and its HTTP
  status is 500, not 200.
\<close>

theorem failed_upload_answers_500:
  "executeUploadActionTyped exampleEnv (typedRequest (Some keylessBucket) (Some exampleObject)) =
     (JSON 500 (S3UploadAction
        \<lparr>StartTime = ''2025-11-08T10:00:00Z'', EndTime = ''2025-11-08T10:00:01Z'',
         ActionStatus = ''FailedActionStatus'', Target = Some keylessBucket,
         Object = Some exampleObject, TargetUrl = [], Query = [], Result = None,
         Error = Some (PropertyValue ''PropertyValue'' ''error''
           ''Failed to extract S3 credentials: missing required S3 credentials'')\<rparr>),
      [Enter UploadHandler])"
  by (simp add: executeUploadActionTyped_def exampleEnv_def typedRequest_def keylessBucket_def
        exampleBucket_def resolveCredentials_def failed_def)

text \<open>
  Claim C3, amended. Every typed handler answers with status 200 and the completed
  status only if the credential extraction, the client construction, the store call and
  the local file calls on its path all succeeded; in every other case it answers with
  status 500, the failed status and an error property that holds the message.
\<close>

theorem business_failure_is_500_in_band:
  "(\<exists>code v. fst (executeUploadActionTyped env a) = JSON code (S3UploadAction v) \<and>
      (code = 500 \<and> ActionStatus v = ''FailedActionStatus'' \<and>
         (\<exists>message. Error v = Some (PropertyValue ''PropertyValue'' ''error'' message))
       \<or> code = 200 \<and> ActionStatus v = ''CompletedActionStatus'' \<and>
         (\<exists>url region accessKey secretKey bucketName object.
            ExtractS3Credentials env (Target a) =
              Inr (url, region, accessKey, secretKey, bucketName) \<and>
            Object a = Some object \<and>
            HetznerUploadFile env url accessKey secretKey bucketName (ContentUrl object)
              (uploadKey (TargetUrl a) object (ContentUrl object)) = None)))
   \<and> (\<exists>code v. fst (executeDownloadActionTyped env a) = JSON code (S3DownloadAction v) \<and>
      (code = 500 \<and> ActionStatus v = ''FailedActionStatus'' \<and>
         (\<exists>message. Error v = Some (PropertyValue ''PropertyValue'' ''error'' message))
       \<or> code = 200 \<and> ActionStatus v = ''CompletedActionStatus'' \<and>
         (\<exists>url region accessKey secretKey bucketName object s3Key client body written.
            ExtractS3Credentials env (Target a) =
              Inr (url, region, accessKey, secretKey, bucketName) \<and>
            Object a = Some object \<and> objectKey object = Some s3Key \<and>
            createS3Client env url region accessKey secretKey = Inr client \<and>
            GetObject env client bucketName s3Key = Inr body \<and>
            Create env (downloadPathFor object s3Key) = None \<and>
            Copy env (downloadPathFor object s3Key) body = Inr written)))
   \<and> (\<exists>code v. fst (executeDeleteActionTyped env a) = JSON code (S3DeleteAction v) \<and>
      (code = 500 \<and> ActionStatus v = ''FailedActionStatus'' \<and>
         (\<exists>message. Error v = Some (PropertyValue ''PropertyValue'' ''error'' message))
       \<or> code = 200 \<and> ActionStatus v = ''CompletedActionStatus'' \<and>
         (\<exists>url region accessKey secretKey bucketName object s3Key client.
            ExtractS3Credentials env (Target a) =
              Inr (url, region, accessKey, secretKey, bucketName) \<and>
            Object a = Some object \<and> objectKey object = Some s3Key \<and>
            createS3Client env url region accessKey secretKey = Inr client \<and>
            DeleteObject env client bucketName s3Key = None)))
   \<and> (\<exists>code v. fst (executeListActionTyped env a) = JSON code (S3ListAction v) \<and>
      (code = 500 \<and> ActionStatus v = ''FailedActionStatus'' \<and>
         (\<exists>message. Error v = Some (PropertyValue ''PropertyValue'' ''error'' message))
       \<or> code = 200 \<and> ActionStatus v = ''CompletedActionStatus'' \<and>
         (\<exists>url region accessKey secretKey bucketName client contents.
            ExtractS3Credentials env (Target a) =
              Inr (url, region, accessKey, secretKey, bucketName) \<and>
            createS3Client env url region accessKey secretKey = Inr client \<and>
            ListObjectsV2 env client bucketName
              (if Query a \<noteq> [] then Some (Query a) else None) = Inr contents)))"
  (is "?upload \<and> ?download \<and> ?delete \<and> ?list")
proof (intro conjI)
  show ?upload
    by (auto simp: executeUploadActionTyped_def Let_def failed_def
             split: sum.splits option.splits prod.splits)
  show ?download
    by (auto simp: executeDownloadActionTyped_def Let_def failed_def
             split: sum.splits option.splits prod.splits)
  show ?delete
    by (auto simp: executeDeleteActionTyped_def Let_def failed_def
             split: sum.splits option.splits prod.splits)
  show ?list
    by (auto simp: executeListActionTyped_def Let_def failed_def
             split: sum.splits option.splits prod.splits)
qed

theorem business_failure_is_500_in_band_witness:
  "\<exists>code v.
     fst (executeUploadActionTyped exampleEnv
            (typedRequest (Some keylessBucket) (Some exampleObject))) =
       JSON code (S3UploadAction v) \<and>
     code = 500 \<and> ActionStatus v = ''FailedActionStatus'' \<and>
     (\<exists>message. Error v = Some (PropertyValue ''PropertyValue'' ''error'' message))"
proof -
  have "ExtractS3Credentials exampleEnv
          (Target (typedRequest (Some keylessBucket) (Some exampleObject))) =
        Inl ''missing required S3 credentials''"
    by (simp add: exampleEnv_def resolveCredentials_def keylessBucket_def exampleBucket_def
          typedRequest_def)
  then show ?thesis
    using business_failure_is_500_in_band
      [of exampleEnv "typedRequest (Some keylessBucket) (Some exampleObject)"]
    by auto
qed

section \<open>Missing credentials\<close>

text \<open>
  Claim C5. When the credential extraction reports a missing field, the handler stops
  there: the typed handlers answer with the failed status and the message of the
  extraction, and their trace holds the handler entry alone; the handlers of the current
  file return through the library's error response with the credential message, and in
  either file no store call is made. In the current file the object is extracted before
  the credentials, so the three object handlers reach the credential message when the
  object extraction succeeded; without that they still make no store call.
\<close>

theorem missing_credentials_fail_before_store:
  "(ExtractS3Credentials env (Target a) = Inl err \<longrightarrow>
      executeUploadActionTyped env a =
        (JSON 500 (S3UploadAction (a\<lparr>StartTime := Now env 0,
           ActionStatus := ''FailedActionStatus'',
           Error := Some (PropertyValue ''PropertyValue'' ''error''
                            (''Failed to extract S3 credentials: '' @ err)),
           EndTime := Now env 1\<rparr>)), [Enter UploadHandler])
    \<and> executeDownloadActionTyped env a =
        (JSON 500 (S3DownloadAction (a\<lparr>StartTime := Now env 0,
           ActionStatus := ''FailedActionStatus'',
           Error := Some (PropertyValue ''PropertyValue'' ''error''
                            (''Failed to extract S3 credentials: '' @ err)),
           EndTime := Now env 1\<rparr>)), [Enter DownloadHandler])
    \<and> executeDeleteActionTyped env a =
        (JSON 500 (S3DeleteAction (a\<lparr>StartTime := Now env 0,
           ActionStatus := ''FailedActionStatus'',
           Error := Some (PropertyValue ''PropertyValue'' ''error''
                            (''Failed to extract S3 credentials: '' @ err)),
           EndTime := Now env 1\<rparr>)), [Enter DeleteHandler])
    \<and> executeListActionTyped env a =
        (JSON 500 (S3ListAction (a\<lparr>StartTime := Now env 0,
           ActionStatus := ''FailedActionStatus'',
           Error := Some (PropertyValue ''PropertyValue'' ''error''
                            (''Failed to extract S3 credentials: '' @ err)),
           EndTime := Now env 1\<rparr>)), [Enter ListHandler]))
   \<and> (GetS3BucketFromAction env action = Inr bucket \<and>
       ExtractS3Credentials env (Some bucket) = Inl err \<longrightarrow>
      filter isStoreCall (snd (executeUploadAction env action)) = []
    \<and> filter isStoreCall (snd (executeDownloadAction env action)) = []
    \<and> filter isStoreCall (snd (executeDeleteAction env action)) = []
    \<and> executeListAction env action =
        (ReturnActionError env action ''Failed to extract S3 credentials'' (Some err),
         [Enter ListHandler])
    \<and> (GetS3ObjectFromAction env action = Inr object \<longrightarrow>
         executeUploadAction env action =
           (ReturnActionError env action ''Failed to extract S3 credentials'' (Some err),
            [Enter UploadHandler])
       \<and> executeDownloadAction env action =
           (ReturnActionError env action ''Failed to extract S3 credentials'' (Some err),
            [Enter DownloadHandler])
       \<and> executeDeleteAction env action =
           (ReturnActionError env action ''Failed to extract S3 credentials'' (Some err),
            [Enter DeleteHandler])))"
  (is "?typed \<and> ?current")
proof
  show ?typed
    by (simp add: executeUploadActionTyped_def executeDownloadActionTyped_def
          executeDeleteActionTyped_def executeListActionTyped_def failed_def)
  show ?current
    by (auto simp: executeUploadAction_def executeDownloadAction_def
          executeDeleteAction_def executeListAction_def Let_def split: sum.splits)
qed

theorem missing_credentials_fail_before_store_witness:
  "ExtractS3Credentials exampleEnv (Target (typedRequest (Some keylessBucket) None)) =
     Inl ''missing required S3 credentials''
   \<and> executeListActionTyped exampleEnv (typedRequest (Some keylessBucket) None) =
       (JSON 500 (S3ListAction
          \<lparr>StartTime = ''2025-11-08T10:00:00Z'', EndTime = ''2025-11-08T10:00:01Z'',
           ActionStatus = ''FailedActionStatus'', Target = Some keylessBucket,
           Object = None, TargetUrl = [], Query = [], Result = None,
           Error = Some (PropertyValue ''PropertyValue'' ''error''
             ''Failed to extract S3 credentials: missing required S3 credentials'')\<rparr>),
        [Enter ListHandler])
   \<and> GetS3BucketFromAction exampleEnv (keylessRequest ''DeleteAction'') = Inr keylessBucket
   \<and> GetS3ObjectFromAction exampleEnv (keylessRequest ''DeleteAction'') = Inr exampleObject
   \<and> snd (executeDeleteAction exampleEnv (keylessRequest ''DeleteAction'')) = [Enter DeleteHandler]"
proof -
  have creds: "ExtractS3Credentials exampleEnv (Some keylessBucket) =
                 Inl ''missing required S3 credentials''"
    by (simp add: exampleEnv_def resolveCredentials_def keylessBucket_def exampleBucket_def)
  have bucket: "GetS3BucketFromAction exampleEnv (keylessRequest ''DeleteAction'') =
                  Inr keylessBucket"
    by (simp add: exampleEnv_def keylessRequest_def semanticRequest_def)
  have object: "GetS3ObjectFromAction exampleEnv (keylessRequest ''DeleteAction'') =
                  Inr exampleObject"
    by (simp add: exampleEnv_def keylessRequest_def semanticRequest_def)
  show ?thesis
    using missing_credentials_fail_before_store
      [of exampleEnv "typedRequest (Some keylessBucket) None"
          "''missing required S3 credentials''"
          "keylessRequest ''DeleteAction''" keylessBucket exampleObject]
      creds bucket object
    by (simp add: typedRequest_def exampleEnv_def)
qed

section \<open>Download destination\<close>

text \<open>Facts about the path functions: a name without slash is one element, the base
  name of a key that ends in such a name is that name, and joining it under
  \<^verbatim>\<open>/tmp\<close> prefixes it, unless it is a dot or a double dot.\<close>

lemma elements_without_separator:
  "CHR ''/'' \<notin> set name \<Longrightarrow> elements name = [name]"
  by (induction name) (auto simp: isPathSeparator_def)

lemma Base_strips_directories:
  assumes "name \<noteq> []" and "CHR ''/'' \<notin> set name"
  shows "Base (dir @ ''/'' @ name) = name"
proof -
  have no_sep: "\<forall>c \<in> set (rev name). \<not> isPathSeparator c"
    using assms(2) by (auto simp: isPathSeparator_def)
  obtain c cs where rn: "rev name = c # cs"
    using assms(1) by (cases "rev name") auto
  have c: "\<not> isPathSeparator c"
    using no_sep rn by simp
  have rev_path: "rev (dir @ ''/'' @ name) = rev name @ CHR ''/'' # rev dir"
    by simp
  have drop: "dropWhile isPathSeparator (rev (dir @ ''/'' @ name)) = rev name @ CHR ''/'' # rev dir"
    unfolding rev_path using rn c by simp
  have "takeWhile (\<lambda>c. \<not> isPathSeparator c) (rev name @ CHR ''/'' # rev dir) = rev name"
    using no_sep by (subst takeWhile_append2) (auto simp: isPathSeparator_def)
  then show ?thesis
    using assms(1) drop by (simp add: Base_def Let_def del: rev_append)
qed

lemma Join_tmp_name:
  assumes "name \<noteq> []" and "CHR ''/'' \<notin> set name" and "name \<noteq> ''.''" and "name \<noteq> ''..''"
  shows "Join ''/tmp'' name = ''/tmp/'' @ name"
proof -
  have "elements (''/tmp/'' @ name) = [[], ''tmp'', name]"
    using assms(2) by (simp add: elements_without_separator isPathSeparator_def)
  then show ?thesis
    using assms by (simp add: Join_def Clean_def Let_def isPathSeparator_def)
qed

text \<open>
  Claim C10. Without a local path in the request, the download destination is the base
  name of the resolved key joined under \<^verbatim>\<open>/tmp\<close>: the directories of the key are
  dropped, so a key that ends in an ordinary file name goes to \<^verbatim>\<open>/tmp/name\<close>
  whatever its directories are, and two keys with the same base name get the same
  destination. Both download handlers create the file at that path.
\<close>

theorem default_download_path:
  "(ContentUrl object = [] \<longrightarrow> downloadPathFor object s3Key = Join ''/tmp'' (Base s3Key))
   \<and> (ContentUrl object = [] \<and> name \<noteq> [] \<and> CHR ''/'' \<notin> set name \<and>
       name \<noteq> ''.'' \<and> name \<noteq> ''..'' \<longrightarrow>
        downloadPathFor object (dir @ ''/'' @ name) = ''/tmp/'' @ name
      \<and> downloadPathFor object (dir' @ ''/'' @ name) = ''/tmp/'' @ name)
   \<and> (ContentUrl object = [] \<and> ContentUrl object' = [] \<and> Base s3Key = Base s3Key' \<longrightarrow>
        downloadPathFor object s3Key = downloadPathFor object' s3Key')
   \<and> (GetS3BucketFromAction env action = Inr bucket \<and>
       GetS3ObjectFromAction env action = Inr object \<and>
       ExtractS3Credentials env (Some bucket) =
         Inr (url, region, accessKey, secretKey, bucketName) \<and>
       objectKey object = Some s3Key \<and> ContentUrl object = [] \<and>
       createS3Client env url region accessKey secretKey = Inr client \<and>
       GetObject env client bucketName s3Key = Inr body \<longrightarrow>
        take 4 (snd (executeDownloadAction env action)) =
          [Enter DownloadHandler, LoadConfig region accessKey secretKey,
           GetObjectCall bucketName s3Key, CreateFile (Join ''/tmp'' (Base s3Key))])
   \<and> (ExtractS3Credentials env (Target a) =
         Inr (url, region, accessKey, secretKey, bucketName) \<and>
       Object a = Some object \<and>
       objectKey object = Some s3Key \<and> ContentUrl object = [] \<and>
       createS3Client env url region accessKey secretKey = Inr client \<and>
       GetObject env client bucketName s3Key = Inr body \<longrightarrow>
        take 4 (snd (executeDownloadActionTyped env a)) =
          [Enter DownloadHandler, LoadConfig region accessKey secretKey,
           GetObjectCall bucketName s3Key, CreateFile (Join ''/tmp'' (Base s3Key))])"
  (is "?default \<and> ?stripped \<and> ?collide \<and> ?current \<and> ?typed")
proof (intro conjI)
  show ?default
    by (simp add: downloadPathFor_def)
  show ?stripped
  proof (intro impI, elim conjE)
    assume empty: "ContentUrl object = []" and name: "name \<noteq> []" "CHR ''/'' \<notin> set name"
      "name \<noteq> ''.''" "name \<noteq> ''..''"
    have base: "Base (dir @ ''/'' @ name) = name" "Base (dir' @ ''/'' @ name) = name"
      by (rule Base_strips_directories [OF name(1) name(2)])+
    have "Join ''/tmp'' name = ''/tmp/'' @ name"
      using name by (rule Join_tmp_name)
    then show "downloadPathFor object (dir @ ''/'' @ name) = ''/tmp/'' @ name
      \<and> downloadPathFor object (dir' @ ''/'' @ name) = ''/tmp/'' @ name"
      using empty base by (simp only: downloadPathFor_def Let_def if_True simp_thms)
  qed
  show ?collide
    by (simp add: downloadPathFor_def)
  show ?current
    by (auto simp: executeDownloadAction_def downloadPathFor_def Let_def
             split: sum.splits option.splits)
  show ?typed
    by (auto simp: executeDownloadActionTyped_def downloadPathFor_def Let_def
             split: sum.splits option.splits)
qed

theorem default_download_path_witness:
  "downloadPathFor (nestedObject ''results/2024/output.xml'') ''results/2024/output.xml'' =
     ''/tmp/output.xml''
   \<and> downloadPathFor (nestedObject ''archive/output.xml'') ''archive/output.xml'' =
     ''/tmp/output.xml''
   \<and> snd (executeDownloadActionTyped exampleEnv
            (typedRequest (Some exampleBucket) (Some (nestedObject ''archive/output.xml'')))) =
       [Enter DownloadHandler, LoadConfig ''fsn1'' ''AK'' ''SK'',
        GetObjectCall ''my-bucket'' ''archive/output.xml'', CreateFile ''/tmp/output.xml'',
        CopyBody ''/tmp/output.xml'']"
proof -
  have path: "downloadPathFor (nestedObject ''archive/output.xml'') ''archive/output.xml'' =
          ''/tmp/output.xml''"
      "downloadPathFor (nestedObject ''results/2024/output.xml'') ''results/2024/output.xml'' =
          ''/tmp/output.xml''"
    using default_download_path
      [where object = "nestedObject ''archive/output.xml''" and name = "''output.xml''"
         and dir = "''archive''" and dir' = "''results/2024''",
       THEN conjunct2, THEN conjunct1]
      default_download_path
      [where object = "nestedObject ''results/2024/output.xml''" and name = "''output.xml''"
         and dir = "''archive''" and dir' = "''results/2024''",
       THEN conjunct2, THEN conjunct1]
    by (simp_all add: nestedObject_def exampleObject_def)
  show ?thesis
    using path
    by (simp add: executeDownloadActionTyped_def exampleEnv_def typedRequest_def
          exampleBucket_def resolveCredentials_def objectKey_def createS3Client_def
          nestedObject_def exampleObject_def Let_def)
qed

section \<open>Upload key\<close>

text \<open>
  Claim C2, counterexample. An upload whose object identifier is \<^verbatim>\<open>data/input.json\<close>
  and whose target key is \<^verbatim>\<open>data/target.json\<close> is stored under the target key: the
  target key comes before the identifier.
\<close>

theorem upload_key_is_target_before_identifier:
  "Identifier exampleObject = ''data/input.json''
   \<and> TargetUrl (uploadRequest ''data/target.json'' exampleObject) = ''data/target.json''
   \<and> snd (executeUploadActionTyped exampleEnv (uploadRequest ''data/target.json'' exampleObject)) =
       [Enter UploadHandler,
        UploadFile ''https://fsn1.your-objectstorage.com'' ''AK'' ''SK'' ''my-bucket''
          ''/tmp/input.json'' ''data/target.json'',
        StatFile ''/tmp/input.json'']"
  by (simp add: executeUploadActionTyped_def exampleEnv_def uploadRequest_def typedRequest_def
        exampleBucket_def exampleObject_def resolveCredentials_def uploadKey_def Let_def)

text \<open>
  Claim C2, amended. For an upload with a non-empty local path that reaches the store,
  the one store call carries the key resolved in this order: the target key of the
  request if it is not empty, otherwise the object identifier if it is not empty,
  otherwise the base name of the local path. The typed file reads the target key from
  the action, the current file from the library's accessor.
\<close>

theorem upload_key_precedence:
  assumes "ContentUrl object \<noteq> []"
  shows
  "(ExtractS3Credentials env (Target a) =
      Inr (url, region, accessKey, secretKey, bucketName) \<and>
    Object a = Some object \<longrightarrow>
      filter isStoreCall (snd (executeUploadActionTyped env a)) =
        [UploadFile url accessKey secretKey bucketName (ContentUrl object)
           (if TargetUrl a \<noteq> [] then TargetUrl a
            else if Identifier object \<noteq> [] then Identifier object
            else Base (ContentUrl object))])
   \<and> (GetS3BucketFromAction env action = Inr bucket \<and>
    GetS3ObjectFromAction env action = Inr object \<and>
    ExtractS3Credentials env (Some bucket) =
      Inr (url, region, accessKey, secretKey, bucketName) \<longrightarrow>
      filter isStoreCall (snd (executeUploadAction env action)) =
        [UploadFile url accessKey secretKey bucketName (ContentUrl object)
           (if GetS3TargetUrlFromAction env action \<noteq> []
            then GetS3TargetUrlFromAction env action
            else if Identifier object \<noteq> [] then Identifier object
            else Base (ContentUrl object))])"
  (is "?typed \<and> ?current")
proof
  show ?typed
    using assms
    by (auto simp: executeUploadActionTyped_def uploadKey_def Let_def
             split: sum.splits option.splits)
  show ?current
    using assms
    by (auto simp: executeUploadAction_def uploadKey_def Let_def
             split: sum.splits option.splits)
qed

theorem upload_key_precedence_witness:
  "ContentUrl exampleObject \<noteq> []
   \<and> filter isStoreCall
       (snd (executeUploadActionTyped exampleEnv (uploadRequest [] exampleObject))) =
       [UploadFile ''https://fsn1.your-objectstorage.com'' ''AK'' ''SK'' ''my-bucket''
          ''/tmp/input.json'' ''data/input.json'']
   \<and> filter isStoreCall
       (snd (executeUploadActionTyped exampleEnv
               (uploadRequest [] (exampleObject\<lparr>Identifier := []\<rparr>)))) =
       [UploadFile ''https://fsn1.your-objectstorage.com'' ''AK'' ''SK'' ''my-bucket''
          ''/tmp/input.json'' ''input.json'']"
proof -
  have path: "ContentUrl exampleObject \<noteq> []" "ContentUrl (exampleObject\<lparr>Identifier := []\<rparr>) \<noteq> []"
    by (simp_all add: exampleObject_def)
  have creds: "ExtractS3Credentials exampleEnv (Some exampleBucket) =
      Inr (''https://fsn1.your-objectstorage.com'', ''fsn1'', ''AK'', ''SK'', ''my-bucket'')"
    by (simp add: exampleEnv_def resolveCredentials_def exampleBucket_def)
  have base: "Base ''/tmp/input.json'' = ''input.json''"
    by (simp add: Base_def isPathSeparator_def)
  show ?thesis
    using path(1) creds base
      upload_key_precedence [OF path(1), THEN conjunct1,
        of exampleEnv "uploadRequest [] exampleObject"
           "''https://fsn1.your-objectstorage.com''" "''fsn1''" "''AK''" "''SK''" "''my-bucket''"]
      upload_key_precedence [OF path(2), THEN conjunct1,
        of exampleEnv "uploadRequest [] (exampleObject\<lparr>Identifier := []\<rparr>)"
           "''https://fsn1.your-objectstorage.com''" "''fsn1''" "''AK''" "''SK''" "''my-bucket''"]
    by (simp add: uploadRequest_def typedRequest_def exampleObject_def)
qed

section \<open>Download key and destination\<close>

text \<open>The key of a download or delete, and the trace of a download that got past the
  extraction steps: an initial segment of the five calls, long enough for every step
  that succeeded.\<close>

lemma objectKey_cases:
  "objectKey object =
     (if Identifier object \<noteq> [] then Some (Identifier object)
      else if Name object \<noteq> [] then Some (Name object) else None)"
  by (simp add: objectKey_def)

lemma download_trace:
  assumes "GetS3BucketFromAction env action = Inr bucket"
    and "GetS3ObjectFromAction env action = Inr object"
    and "ExtractS3Credentials env (Some bucket) =
           Inr (url, region, accessKey, secretKey, bucketName)"
    and "objectKey object = Some s3Key"
  shows "snd (executeDownloadAction env action) =
           take (length (snd (executeDownloadAction env action)))
             [Enter DownloadHandler, LoadConfig region accessKey secretKey,
              GetObjectCall bucketName s3Key, CreateFile (downloadPathFor object s3Key),
              CopyBody (downloadPathFor object s3Key)]"
    and "createS3Client env url region accessKey secretKey = Inr client \<Longrightarrow>
           3 \<le> length (snd (executeDownloadAction env action))"
    and "createS3Client env url region accessKey secretKey = Inr client \<Longrightarrow>
         GetObject env client bucketName s3Key = Inr body \<Longrightarrow>
           4 \<le> length (snd (executeDownloadAction env action))"
  using assms
  by (auto simp: executeDownloadAction_def Let_def split: sum.splits option.splits)

lemma download_trace_typed:
  assumes "ExtractS3Credentials env (Target a) =
           Inr (url, region, accessKey, secretKey, bucketName)"
    and "Object a = Some object"
    and "objectKey object = Some s3Key"
  shows "snd (executeDownloadActionTyped env a) =
           take (length (snd (executeDownloadActionTyped env a)))
             [Enter DownloadHandler, LoadConfig region accessKey secretKey,
              GetObjectCall bucketName s3Key, CreateFile (downloadPathFor object s3Key),
              CopyBody (downloadPathFor object s3Key)]"
    and "createS3Client env url region accessKey secretKey = Inr client \<Longrightarrow>
           3 \<le> length (snd (executeDownloadActionTyped env a))"
    and "createS3Client env url region accessKey secretKey = Inr client \<Longrightarrow>
         GetObject env client bucketName s3Key = Inr body \<Longrightarrow>
           4 \<le> length (snd (executeDownloadActionTyped env a))"
  using assms
  by (auto simp: executeDownloadActionTyped_def Let_def split: sum.splits option.splits)

text \<open>
  Claim C6. With \<open>s3Key\<close> the object identifier if that is not empty and the object
  name otherwise, and \<open>downloadPath\<close> the content path of the request if that is not
  empty and the default under \<^verbatim>\<open>/tmp\<close> otherwise: a download whose descriptors and
  credentials were extracted fails with the missing-key message and an empty trace when
  the key is empty; otherwise its calls are, in order, the client construction, the get
  of \<open>s3Key\<close>, the creation of \<open>downloadPath\<close> and the copy into it, as far as the
  steps succeed. Both handler files agree. Whatever the credentials are, a download
  whose object has an empty key makes no store call.
\<close>

theorem download_key_and_destination:
  assumes "s3Key = (if Identifier object \<noteq> [] then Identifier object else Name object)"
    and "downloadPath =
           (if ContentUrl object \<noteq> [] then ContentUrl object
            else Join ''/tmp'' (Base s3Key))"
  shows
  "(GetS3BucketFromAction env action = Inr bucket \<and>
    GetS3ObjectFromAction env action = Inr object \<and>
    ExtractS3Credentials env (Some bucket) =
      Inr (url, region, accessKey, secretKey, bucketName) \<longrightarrow>
      (s3Key = [] \<longrightarrow>
         executeDownloadAction env action =
           (ReturnActionError env action ''Object identifier (S3 key) is required'' None,
            [Enter DownloadHandler]))
    \<and> (s3Key \<noteq> [] \<longrightarrow>
         snd (executeDownloadAction env action) =
           take (length (snd (executeDownloadAction env action)))
             [Enter DownloadHandler, LoadConfig region accessKey secretKey,
              GetObjectCall bucketName s3Key, CreateFile downloadPath, CopyBody downloadPath]
       \<and> (\<forall>client. createS3Client env url region accessKey secretKey = Inr client \<longrightarrow>
             3 \<le> length (snd (executeDownloadAction env action))
           \<and> (\<forall>body. GetObject env client bucketName s3Key = Inr body \<longrightarrow>
                 4 \<le> length (snd (executeDownloadAction env action))))))
   \<and> (ExtractS3Credentials env (Target a) =
      Inr (url, region, accessKey, secretKey, bucketName) \<and>
    Object a = Some object \<longrightarrow>
      (s3Key = [] \<longrightarrow>
         executeDownloadActionTyped env a =
           (JSON 500 (S3DownloadAction (a\<lparr>StartTime := Now env 0,
              ActionStatus := ''FailedActionStatus'',
              Error := Some (PropertyValue ''PropertyValue'' ''error''
                               ''Object identifier (S3 key) is required''),
              EndTime := Now env 1\<rparr>)), [Enter DownloadHandler]))
    \<and> (s3Key \<noteq> [] \<longrightarrow>
         snd (executeDownloadActionTyped env a) =
           take (length (snd (executeDownloadActionTyped env a)))
             [Enter DownloadHandler, LoadConfig region accessKey secretKey,
              GetObjectCall bucketName s3Key, CreateFile downloadPath, CopyBody downloadPath]
       \<and> (\<forall>client. createS3Client env url region accessKey secretKey = Inr client \<longrightarrow>
             3 \<le> length (snd (executeDownloadActionTyped env a))
           \<and> (\<forall>body. GetObject env client bucketName s3Key = Inr body \<longrightarrow>
                 4 \<le> length (snd (executeDownloadActionTyped env a))))))
   \<and> (GetS3ObjectFromAction env action = Inr object \<and> s3Key = [] \<longrightarrow>
      filter isStoreCall (snd (executeDownloadAction env action)) = [])
   \<and> (Object a = Some object \<and> s3Key = [] \<longrightarrow>
      filter isStoreCall (snd (executeDownloadActionTyped env a)) = [])"
  (is "?current \<and> ?typed \<and> ?quiet \<and> ?quietTyped")
proof (intro conjI)
  have none: "s3Key = [] \<Longrightarrow> objectKey object = None"
    using assms(1) by (simp add: objectKey_cases split: if_splits)
  have some: "s3Key \<noteq> [] \<Longrightarrow> objectKey object = Some s3Key"
    using assms(1) by (simp add: objectKey_cases split: if_splits)
  have path: "downloadPathFor object s3Key = downloadPath"
    using assms(2) by (simp add: downloadPathFor_def)
  show ?current
  proof (intro impI conjI allI; (elim conjE)?)
    assume ext: "GetS3BucketFromAction env action = Inr bucket"
      "GetS3ObjectFromAction env action = Inr object"
      "ExtractS3Credentials env (Some bucket) =
         Inr (url, region, accessKey, secretKey, bucketName)"
    {
      assume "s3Key = []"
      then show "executeDownloadAction env action =
           (ReturnActionError env action ''Object identifier (S3 key) is required'' None,
            [Enter DownloadHandler])"
        using ext none by (simp add: executeDownloadAction_def)
    }
    {
      assume key: "s3Key \<noteq> []"
      show "snd (executeDownloadAction env action) =
           take (length (snd (executeDownloadAction env action)))
             [Enter DownloadHandler, LoadConfig region accessKey secretKey,
              GetObjectCall bucketName s3Key, CreateFile downloadPath, CopyBody downloadPath]"
        using download_trace(1) [OF ext some [OF key]] path by simp
      fix client
      assume client: "createS3Client env url region accessKey secretKey = Inr client"
      show "3 \<le> length (snd (executeDownloadAction env action))"
        using download_trace(2) [OF ext some [OF key] client] .
      fix body
      assume "GetObject env client bucketName s3Key = Inr body"
      then show "4 \<le> length (snd (executeDownloadAction env action))"
        using download_trace(3) [OF ext some [OF key] client] by simp
    }
  qed
  show ?typed
  proof (intro impI conjI allI; (elim conjE)?)
    assume ext: "ExtractS3Credentials env (Target a) =
         Inr (url, region, accessKey, secretKey, bucketName)" "Object a = Some object"
    {
      assume "s3Key = []"
      then show "executeDownloadActionTyped env a =
           (JSON 500 (S3DownloadAction (a\<lparr>StartTime := Now env 0,
              ActionStatus := ''FailedActionStatus'',
              Error := Some (PropertyValue ''PropertyValue'' ''error''
                               ''Object identifier (S3 key) is required''),
              EndTime := Now env 1\<rparr>)), [Enter DownloadHandler])"
        using ext none by (simp add: executeDownloadActionTyped_def failed_def)
    }
    {
      assume key: "s3Key \<noteq> []"
      show "snd (executeDownloadActionTyped env a) =
           take (length (snd (executeDownloadActionTyped env a)))
             [Enter DownloadHandler, LoadConfig region accessKey secretKey,
              GetObjectCall bucketName s3Key, CreateFile downloadPath, CopyBody downloadPath]"
        using download_trace_typed(1) [OF ext some [OF key]] path by simp
      fix client
      assume client: "createS3Client env url region accessKey secretKey = Inr client"
      show "3 \<le> length (snd (executeDownloadActionTyped env a))"
        using download_trace_typed(2) [OF ext some [OF key] client] .
      fix body
      assume "GetObject env client bucketName s3Key = Inr body"
      then show "4 \<le> length (snd (executeDownloadActionTyped env a))"
        using download_trace_typed(3) [OF ext some [OF key] client] by simp
    }
  qed
  show ?quiet
    using none
    by (auto simp: executeDownloadAction_def Let_def split: sum.splits prod.splits)
  show ?quietTyped
    using none
    by (auto simp: executeDownloadActionTyped_def Let_def failed_def
             split: sum.splits prod.splits)
qed

theorem download_key_and_destination_witness:
  "executeDownloadActionTyped exampleEnv (typedRequest (Some exampleBucket) (Some namelessObject)) =
     (JSON 500 (S3DownloadAction
        \<lparr>StartTime = ''2025-11-08T10:00:00Z'', EndTime = ''2025-11-08T10:00:01Z'',
         ActionStatus = ''FailedActionStatus'', Target = Some exampleBucket,
         Object = Some namelessObject, TargetUrl = [], Query = [], Result = None,
         Error = Some (PropertyValue ''PropertyValue'' ''error''
                         ''Object identifier (S3 key) is required'')\<rparr>),
      [Enter DownloadHandler])
   \<and> snd (executeDownloadActionTyped exampleEnv
            (typedRequest (Some exampleBucket) (Some namedObject))) =
       [Enter DownloadHandler, LoadConfig ''fsn1'' ''AK'' ''SK'',
        GetObjectCall ''my-bucket'' ''report.pdf'', CreateFile ''/data/report.pdf'',
        CopyBody ''/data/report.pdf'']"
proof -
  have creds: "ExtractS3Credentials exampleEnv (Some exampleBucket) =
      Inr (''https://fsn1.your-objectstorage.com'', ''fsn1'', ''AK'', ''SK'', ''my-bucket'')"
    by (simp add: exampleEnv_def resolveCredentials_def exampleBucket_def)
  have missing: "executeDownloadActionTyped exampleEnv
        (typedRequest (Some exampleBucket) (Some namelessObject)) =
     (JSON 500 (S3DownloadAction
        \<lparr>StartTime = ''2025-11-08T10:00:00Z'', EndTime = ''2025-11-08T10:00:01Z'',
         ActionStatus = ''FailedActionStatus'', Target = Some exampleBucket,
         Object = Some namelessObject, TargetUrl = [], Query = [], Result = None,
         Error = Some (PropertyValue ''PropertyValue'' ''error''
                         ''Object identifier (S3 key) is required'')\<rparr>),
      [Enter DownloadHandler])"
    using creds
      download_key_and_destination
        [where object = namelessObject and env = exampleEnv
          and a = "typedRequest (Some exampleBucket) (Some namelessObject)"
          and url = "''https://fsn1.your-objectstorage.com''" and region = "''fsn1''"
          and accessKey = "''AK''" and secretKey = "''SK''" and bucketName = "''my-bucket''",
         OF refl refl, THEN conjunct2]
    by (simp add: typedRequest_def namelessObject_def exampleObject_def exampleEnv_def)
  have fetched: "snd (executeDownloadActionTyped exampleEnv
            (typedRequest (Some exampleBucket) (Some namedObject))) =
       [Enter DownloadHandler, LoadConfig ''fsn1'' ''AK'' ''SK'',
        GetObjectCall ''my-bucket'' ''report.pdf'', CreateFile ''/data/report.pdf'',
        CopyBody ''/data/report.pdf'']"
    by (simp add: executeDownloadActionTyped_def exampleEnv_def typedRequest_def
          exampleBucket_def resolveCredentials_def objectKey_def createS3Client_def
          downloadPathFor_def namedObject_def exampleObject_def Let_def)
  show ?thesis
    using missing fetched by simp
qed

section \<open>Listing\<close>

text \<open>
  Claim C7. A listing that reaches the store makes exactly one listing call, with the
  query as prefix when the query is a non-empty string and without prefix otherwise;
  the result holds the entries of that one answer; no request makes more than one
  listing call. The typed file reads the query from the action's field.
\<close>

theorem listing_prefix_and_single_call:
  "(GetS3BucketFromAction env action = Inr bucket \<and>
    ExtractS3Credentials env (Some bucket) =
      Inr (url, region, accessKey, secretKey, bucketName) \<and>
    createS3Client env url region accessKey secretKey = Inr client \<longrightarrow>
      filter isListCall (snd (executeListAction env action)) =
        [ListObjectsCall bucketName (queryPrefix action)]
    \<and> (\<forall>contents. ListObjectsV2 env client bucketName (queryPrefix action) = Inr contents \<longrightarrow>
          fst (executeListAction env action) =
            JSON 200 (SetSuccessOnAction env
              (action\<lparr>Properties := (Properties action)
                 (''result'' \<mapsto> ObjectsValue (map (listedObject bucketName) contents))\<rparr>))))
   \<and> (\<forall>query. Properties action ''query'' = Some (StringValue query) \<and> query \<noteq> [] \<longrightarrow>
         queryPrefix action = Some query)
   \<and> ((\<forall>query. Properties action ''query'' = Some (StringValue query) \<longrightarrow> query = []) \<longrightarrow>
         queryPrefix action = None)
   \<and> length (filter isListCall (snd (executeListAction env action))) \<le> 1
   \<and> (ExtractS3Credentials env (Target a) =
      Inr (url, region, accessKey, secretKey, bucketName) \<and>
    createS3Client env url region accessKey secretKey = Inr client \<longrightarrow>
      filter isListCall (snd (executeListActionTyped env a)) =
        [ListObjectsCall bucketName (if Query a \<noteq> [] then Some (Query a) else None)]
    \<and> (\<forall>contents. ListObjectsV2 env client bucketName
                      (if Query a \<noteq> [] then Some (Query a) else None) = Inr contents \<longrightarrow>
          fst (executeListActionTyped env a) =
            JSON 200 (S3ListAction (a\<lparr>StartTime := Now env 0,
              Result := Some (ListResult (map (listedObject bucketName) contents)),
              ActionStatus := ''CompletedActionStatus'', EndTime := Now env 1\<rparr>))))
   \<and> length (filter isListCall (snd (executeListActionTyped env a))) \<le> 1"
  (is "?current \<and> ?present \<and> ?absent \<and> ?atmost \<and> ?typed \<and> ?atmostTyped")
proof (intro conjI)
  show ?current
    by (auto simp: executeListAction_def Let_def split: sum.splits)
  show ?present
    by (simp add: queryPrefix_def)
  show ?absent
    by (auto simp: queryPrefix_def split: option.splits PropertyData.splits)
  show ?atmost
    by (auto simp: executeListAction_def Let_def split: sum.splits prod.splits)
  show ?typed
    by (auto simp: executeListActionTyped_def Let_def split: sum.splits)
  show ?atmostTyped
    by (auto simp: executeListActionTyped_def Let_def failed_def split: sum.splits prod.splits)
qed

theorem listing_prefix_and_single_call_witness:
  "executeListAction exampleEnv (listRequest ''test/'') =
     (JSON 200 (SetSuccessOnAction exampleEnv
        ((listRequest ''test/'')\<lparr>Properties := (Properties (listRequest ''test/''))
           (''result'' \<mapsto> ObjectsValue
              [\<lparr>AtType = ''MediaObject'', Identifier = ''test/integration-upload.txt'',
                Name = ''integration-upload.txt'',
                ContentUrl = ''s3://my-bucket/test/integration-upload.txt'',
                ContentSize = 40, EncodingFormat = [],
                UploadDate = ''2025-11-08T09:45:00Z''\<rparr>])\<rparr>)),
      [Enter ListHandler, LoadConfig ''fsn1'' ''AK'' ''SK'',
       ListObjectsCall ''my-bucket'' (Some ''test/'')])
   \<and> queryPrefix (listRequest ''test/'') = Some ''test/''
   \<and> snd (executeListAction exampleEnv (listRequest [])) =
       [Enter ListHandler, LoadConfig ''fsn1'' ''AK'' ''SK'', ListObjectsCall ''my-bucket'' None]"
proof -
  have query: "Properties (listRequest ''test/'') ''query'' = Some (StringValue ''test/'')"
    by (simp add: listRequest_def semanticRequest_def)
  have prefix: "queryPrefix (listRequest ''test/'') = Some ''test/''"
    using listing_prefix_and_single_call
      [where action = "listRequest ''test/''", THEN conjunct2, THEN conjunct1] query
    by simp
  have base: "Base ''test/integration-upload.txt'' = ''integration-upload.txt''"
    by (simp add: Base_def isPathSeparator_def)
  have absent: "queryPrefix (listRequest []) = None"
    by (simp add: queryPrefix_def listRequest_def semanticRequest_def)
  show ?thesis
    using prefix absent base
    by (simp add: executeListAction_def exampleEnv_def listRequest_def semanticRequest_def
          exampleBucket_def resolveCredentials_def createS3Client_def storedObjects_def
          listedObject_def Let_def)
qed

section \<open>The REST adapter\<close>

text \<open>The dispatcher marks its entry in the trace, and \<^verbatim>\<open>callSemanticHandler\<close> either
  fails to marshal, with an empty trace, or is the dispatcher on the marshalled body.\<close>

lemma dispatcher_enters:
  "Enter SemanticHandler \<in> set (snd (handleSemanticAction env request))"
  by (auto simp: handleSemanticAction_def split: sum.splits prod.splits)

lemma callSemanticHandler_cases:
  "snd (callSemanticHandler env envelope) = []
   \<or> (\<exists>body. callSemanticHandler env envelope = handleSemanticAction env (Inr body))"
  by (auto simp: callSemanticHandler_def split: sum.splits)

text \<open>
  Claim C8. A REST upload without key or without content, a REST get or delete without
  key and a bucket creation without name are answered by the adapter itself with status
  400 and an empty trace: the dispatcher, whose trace always holds its entry mark, did
  not run, and nothing of the answer depends on the envelope or its marshalling. For
  every request whatsoever, the trace of an adapter is empty or the adapter's answer is
  the dispatcher's answer on some body: the adapter makes no call of its own.
\<close>

theorem rest_validation_answers_400:
  "(Key req = [] \<longrightarrow>
      uploadObjectREST env (Inr req) = (JSONMap 400 [(''error'', ''key is required'')], []))
   \<and> (Key req \<noteq> [] \<and> Content req = [] \<longrightarrow>
      uploadObjectREST env (Inr req) = (JSONMap 400 [(''error'', ''content is required'')], []))
   \<and> getObjectREST env [] bucket = (JSONMap 400 [(''error'', ''key is required'')], [])
   \<and> deleteObjectREST env [] bucket = (JSONMap 400 [(''error'', ''key is required'')], [])
   \<and> (RequestName bucketReq = [] \<longrightarrow>
      createBucketREST env (Inr bucketReq) =
        (JSONMap 400 [(''error'', ''name is required'')], []))
   \<and> Enter SemanticHandler \<in> set (snd (handleSemanticAction env request))
   \<and> (snd (uploadObjectREST env bound) = []
      \<or> (\<exists>body. uploadObjectREST env bound = handleSemanticAction env (Inr body)))
   \<and> (snd (getObjectREST env key bucket) = []
      \<or> (\<exists>body. getObjectREST env key bucket = handleSemanticAction env (Inr body)))
   \<and> (snd (deleteObjectREST env key bucket) = []
      \<or> (\<exists>body. deleteObjectREST env key bucket = handleSemanticAction env (Inr body)))
   \<and> (snd (listBucketsREST env) = []
      \<or> (\<exists>body. listBucketsREST env = handleSemanticAction env (Inr body)))
   \<and> (snd (createBucketREST env boundBucket) = []
      \<or> (\<exists>body. createBucketREST env boundBucket = handleSemanticAction env (Inr body)))"
  (is "?key \<and> ?content \<and> ?get \<and> ?delete \<and> ?name \<and> ?enters
       \<and> ?upload' \<and> ?get' \<and> ?delete' \<and> ?list' \<and> ?create'")
proof (intro conjI)
  show ?key by (simp add: uploadObjectREST_def)
  show ?content by (simp add: uploadObjectREST_def)
  show ?get by (simp add: getObjectREST_def)
  show ?delete by (simp add: deleteObjectREST_def)
  show ?name by (simp add: createBucketREST_def)
  show ?enters by (rule dispatcher_enters)
  show ?upload'
    using callSemanticHandler_cases [of env "uploadEnvelope (projr bound)"]
    by (cases bound) (auto simp: uploadObjectREST_def)
  show ?get'
    using callSemanticHandler_cases [of env "getObjectEnvelope key bucket"]
    by (auto simp: getObjectREST_def)
  show ?delete'
    using callSemanticHandler_cases [of env "deleteObjectEnvelope key bucket"]
    by (auto simp: deleteObjectREST_def)
  show ?list'
    using callSemanticHandler_cases [of env]
    by (auto simp: listBucketsREST_def)
  show ?create'
    using callSemanticHandler_cases [of env "bucketEnvelope (projr boundBucket)"]
    by (cases boundBucket) (auto simp: createBucketREST_def)
qed

theorem rest_validation_answers_400_witness:
  "uploadObjectREST exampleEnv (Inr \<lparr>Key = [], Content = ''aGVsbG8='', Bucket = []\<rparr>) =
     (JSONMap 400 [(''error'', ''key is required'')], [])
   \<and> uploadObjectREST exampleEnv (Inr \<lparr>Key = ''a.txt'', Content = [], Bucket = []\<rparr>) =
     (JSONMap 400 [(''error'', ''content is required'')], [])
   \<and> createBucketREST exampleEnv (Inr \<lparr>RequestName = []\<rparr>) =
     (JSONMap 400 [(''error'', ''name is required'')], [])"
  using rest_validation_answers_400
    [where req = "\<lparr>Key = [], Content = ''aGVsbG8='', Bucket = []\<rparr>" and env = exampleEnv
       and bucketReq = "\<lparr>RequestName = []\<rparr>"]
    rest_validation_answers_400
    [where req = "\<lparr>Key = ''a.txt'', Content = [], Bucket = []\<rparr>" and env = exampleEnv]
  by simp

text \<open>The list handler is the only handler in its own trace, and it makes none of the
  calls of a download.\<close>

lemma list_handler_entries:
  "filter isHandlerEntry (snd (executeListAction env action)) = [Enter ListHandler]"
  by (auto simp: executeListAction_def Let_def split: sum.splits prod.splits)

lemma list_handler_no_download:
  "filter isDownloadCall (snd (executeListAction env action)) = []"
  by (auto simp: executeListAction_def Let_def split: sum.splits prod.splits)

text \<open>
  Claim C9. A REST get of an object with a key builds an envelope whose discriminator is
  \<^verbatim>\<open>SearchAction\<close>; when the envelope marshals and parses to an action with the
  envelope's discriminator, the dispatcher runs the list handler on it: the answer and
  the trace are those of the list handler, the list handler is the only handler entered,
  and no step of a download (handler entry, get, file creation, copy) occurs.
\<close>

theorem rest_get_runs_listing:
  assumes "key \<noteq> []"
    and "Marshal env (getObjectEnvelope key bucket) = Inr body"
    and "ParseSemanticAction env body = Inr action"
    and "jsonMember ''@type'' (getObjectEnvelope key bucket) = Some (JString (Type action))"
  shows "Type action = ''SearchAction''
   \<and> getObjectREST env key bucket =
       (fst (executeListAction env action),
        Enter SemanticHandler # snd (executeListAction env action))
   \<and> filter isHandlerEntry (snd (getObjectREST env key bucket)) = [Enter ListHandler]
   \<and> filter isDownloadCall (snd (getObjectREST env key bucket)) = []"
proof -
  have type: "Type action = ''SearchAction''"
    using assms(4) by (simp add: getObjectEnvelope_def)
  have run: "getObjectREST env key bucket =
       (fst (executeListAction env action),
        Enter SemanticHandler # snd (executeListAction env action))"
    using assms(1-3) type
    by (simp add: getObjectREST_def callSemanticHandler_def handleSemanticAction_def
          split: prod.splits)
  show ?thesis
    using type run by (simp add: list_handler_entries list_handler_no_download)
qed

theorem rest_get_runs_listing_witness:
  "getObjectREST restEnv ''data/input.json'' [] =
     (ReturnActionError restEnv
        (semanticRequest ''SearchAction''
           [(''object'', ObjectValue (exampleObject\<lparr>AtType := ''DigitalDocument'',
               ContentUrl := [], EncodingFormat := []\<rparr>))])
        ''Failed to extract S3 bucket'' (Some ''no target found in action properties''),
      [Enter SemanticHandler, Enter ListHandler])"
proof -
  have key: "''data/input.json'' \<noteq> []"
    by simp
  have marshal: "Marshal restEnv (getObjectEnvelope ''data/input.json'' []) = Inr ''{}''"
    by (simp add: restEnv_def exampleEnv_def)
  have parse: "ParseSemanticAction restEnv ''{}'' =
      Inr (semanticRequest ''SearchAction''
             [(''object'', ObjectValue (exampleObject\<lparr>AtType := ''DigitalDocument'',
                 ContentUrl := [], EncodingFormat := []\<rparr>))])"
    by (simp add: restEnv_def)
  have type: "jsonMember ''@type'' (getObjectEnvelope ''data/input.json'' []) =
      Some (JString (Type (semanticRequest ''SearchAction''
             [(''object'', ObjectValue (exampleObject\<lparr>AtType := ''DigitalDocument'',
                 ContentUrl := [], EncodingFormat := []\<rparr>))])))"
    by (simp add: getObjectEnvelope_def semanticRequest_def)
  show ?thesis
    using rest_get_runs_listing [OF key marshal parse type]
    by (simp add: executeListAction_def restEnv_def exampleEnv_def semanticRequest_def)
qed

end
